theory Spec2Isabelle
  imports Main
begin

section \<open>Go values used by package agent\<close>

text \<open>
  Go byte slices and strings are byte sequences. The Go \<^verbatim>\<open>error\<close> interface is a
  datatype: \<open>EOF\<close> is \<^verbatim>\<open>io.EOF\<close>, \<open>ErrorString m\<close> is an error without a cause
  (\<^verbatim>\<open>fmt.Errorf("m")\<close>, or any error of a library), and \<open>Wrap m e\<close> is
  \<^verbatim>\<open>fmt.Errorf("m: %w", e)\<close>. A \<^verbatim>\<open>nil\<close> error is \<open>None\<close>.
\<close>

type_synonym bytes = string

datatype error = EOF | ErrorString string | Wrap string error

text \<open>A call either returns a value or panics.\<close>

datatype 'a result = Returns 'a | Panics

fun errors_Is :: "error \<Rightarrow> error \<Rightarrow> bool" where
  "errors_Is (Wrap m e) target = (if Wrap m e = target then True else errors_Is e target)"
| "errors_Is e target = (e = target)"

definition nl :: string where
  "nl = [CHR 0x0A]"

definition tab2 :: string where
  "tab2 = [CHR 0x09, CHR 0x09]"

subsection \<open>Package copilot (types)\<close>

record ChatMessage =
  Role :: string
  Content :: string

record ChatRequest =
  Messages :: "ChatMessage list"

type_synonym Model = string

definition ModelGPT4o :: Model where
  "ModelGPT4o = ''gpt-4o''"

text \<open>The fields of \<^verbatim>\<open>ChatCompletionsRequest\<close> carry the prefix \<open>cc_\<close>, since
  \<open>Messages\<close> is already a field of \<open>ChatRequest\<close>.\<close>

record ChatCompletionsRequest =
  cc_Messages :: "ChatMessage list"
  cc_Model :: Model
  cc_Stream :: bool

subsection \<open>Package embedding (types)\<close>

text \<open>
  Modelled from the spec: the struct \<^verbatim>\<open>embedding.Dataset\<close> (one indexed document: a
  filename used later to load the content, and its embedding vector). The vector is a
  sequence of floating-point numbers that package agent only passes along, so its type
  is the parameter \<open>'e\<close>.
\<close>

record 'e Dataset =
  Filename :: string
  Embedding :: 'e

subsection \<open>Package agent (types)\<close>

record asn1Signature =
  R :: int
  S :: int

text \<open>
  The struct \<^verbatim>\<open>Service\<close>. The type \<open>'k\<close> stands for \<^verbatim>\<open>ecdsa.PublicKey\<close>; the field
  \<open>pubKey\<close> is a pointer to one, \<open>None\<close> when it is \<^verbatim>\<open>nil\<close> (\<^verbatim>\<open>NewService\<close> takes any
  pointer). A \<^verbatim>\<open>nil\<close> slice of datasets is the empty list. \<open>datasetsInit\<close> is the state of the
  \<^verbatim>\<open>sync.Once\<close>: \<open>True\<close> once \<^verbatim>\<open>Do\<close> has run its function.
\<close>

record ('k, 'e) Service =
  pubKey :: "'k option"
  datasets :: "'e Dataset list"
  datasetsInit :: bool

definition NewService :: "'k option \<Rightarrow> ('k, 'e) Service" where
  "NewService k = \<lparr>pubKey = k, datasets = [], datasetsInit = False\<rparr>"

section \<open>The collaborators\<close>

text \<open>
  What a \<^verbatim>\<open>bufio.Scanner\<close> over the downstream response produces: \<open>Scan_token buf rest\<close>
  when \<^verbatim>\<open>Scan()\<close> returns true with \<^verbatim>\<open>Bytes() = buf\<close>, and \<open>Scan_end err\<close> when
  \<^verbatim>\<open>Scan()\<close> returns false and \<^verbatim>\<open>Err()\<close> returns \<open>err\<close>. A downstream that never
  ends is an infinite value of this type.
\<close>

codatatype Scanner = Scan_token bytes Scanner | Scan_end "error option"

type_synonym File = nat

text \<open>
  The calls that leave the process, in the order they are made: the record of what a
  test double of each collaborator would have seen.
\<close>

datatype 'e call =
    Call_ReadDir string
  | Call_GenerateDatasets string string "string list"
  | Call_Create string string string
  | Call_FindBestDataset "'e Dataset list" 'e
  | Call_Open string
  | Call_ReadAll File
  | Call_ChatCompletions string string ChatCompletionsRequest

text \<open>
  The functions of the standard library and of the packages \<^verbatim>\<open>embedding\<close> and
  \<^verbatim>\<open>copilot\<close> that package agent calls, with Go's result tuples. Each is called at
  most once while one request is handled, except \<open>w_Write\<close>, whose first argument is the
  number of earlier calls of \<^verbatim>\<open>Write\<close> on the response. \<open>w_Write\<close> returns the number of
  bytes accepted and the error; \<open>os_ReadDir\<close> returns the names of the entries.
\<close>

record ('k, 'e) env =
  base64_DecodeString :: "string \<Rightarrow> bytes \<times> error option"
  asn1_Unmarshal :: "bytes \<Rightarrow> bytes \<times> asn1Signature \<times> error option"
  sha256_Sum256 :: "bytes \<Rightarrow> bytes"
  ecdsa_Verify :: "'k \<Rightarrow> bytes \<Rightarrow> int \<Rightarrow> int \<Rightarrow> bool"
  json_Unmarshal :: "bytes \<Rightarrow> ChatRequest option \<times> error option"
  os_ReadDir :: "string \<Rightarrow> string list \<times> error option"
  embedding_GenerateDatasets :: "string \<Rightarrow> string \<Rightarrow> string list \<Rightarrow> 'e Dataset list \<times> error option"
  embedding_Create :: "string \<Rightarrow> string \<Rightarrow> string \<Rightarrow> 'e \<times> error option"
  embedding_FindBestDataset :: "'e Dataset list \<Rightarrow> 'e \<Rightarrow> 'e Dataset option \<times> error option"
  os_Open :: "string \<Rightarrow> File \<times> error option"
  io_ReadAll :: "File \<Rightarrow> bytes \<times> error option"
  copilot_ChatCompletions :: "string \<Rightarrow> string \<Rightarrow> ChatCompletionsRequest \<Rightarrow> Scanner \<times> error option"
  w_Write :: "nat \<Rightarrow> bytes \<Rightarrow> nat \<times> error option"

text \<open>
  The state a request runs in: the service, the calls made so far, and the response
  (\<open>wroteHeader\<close> is the status code once the header is written, \<open>written\<close> the body so
  far, \<open>nwrites\<close> the number of calls of \<^verbatim>\<open>Write\<close>).
\<close>

record ('k, 'e) world =
  service :: "('k, 'e) Service"
  calls :: "'e call list"
  wroteHeader :: "nat option"
  written :: bytes
  nwrites :: nat

definition log_call :: "'e call \<Rightarrow> ('k, 'e) world \<Rightarrow> ('k, 'e) world" where
  "log_call c s = s\<lparr>calls := calls s @ [c]\<rparr>"

text \<open>
  \<^verbatim>\<open>http.ResponseWriter\<close>: the first \<^verbatim>\<open>Write\<close> sends status 200 when no header was
  written, and \<^verbatim>\<open>WriteHeader\<close> after the header was written changes nothing. A
  \<^verbatim>\<open>Write\<close> that returns no error has accepted the whole buffer (the contract of
  \<^verbatim>\<open>io.Writer\<close>); one that fails has accepted the first \<open>n\<close> bytes.
\<close>

definition WriteHeader :: "nat \<Rightarrow> ('k, 'e) world \<Rightarrow> ('k, 'e) world" where
  "WriteHeader code s = (if wroteHeader s = None then s\<lparr>wroteHeader := Some code\<rparr> else s)"

definition Write :: "('k, 'e) env \<Rightarrow> bytes \<Rightarrow> ('k, 'e) world \<Rightarrow> error option \<times> ('k, 'e) world" where
  "Write env p s =
     (case w_Write env (nwrites s) p of
        (n, err) \<Rightarrow>
          (err, (WriteHeader 200 s)\<lparr>written := written s @ (if err = None then p else take n p),
                                    nwrites := Suc (nwrites s)\<rparr>))"

definition http_Error :: "('k, 'e) env \<Rightarrow> string \<Rightarrow> nat \<Rightarrow> ('k, 'e) world \<Rightarrow> ('k, 'e) world" where
  "http_Error env msg code s = snd (Write env (msg @ nl) (WriteHeader code s))"

definition StatusUnauthorized :: nat where
  "StatusUnauthorized = 401"

definition StatusBadRequest :: nat where
  "StatusBadRequest = 400"

definition StatusInternalServerError :: nat where
  "StatusInternalServerError = 500"

section \<open>validPayload\<close>

text \<open>
  \<^verbatim>\<open>ecdsa.Verify(publicKey, digest[:], parsedSig.R, parsedSig.S)\<close>. The function reads
  the curve of the key it is given a pointer to, so with a \<^verbatim>\<open>nil\<close> pointer the call
  panics (nil pointer dereference); \<open>ecdsa_Verify env\<close> is what it returns for a key.
\<close>

definition ecdsa_Verify_pub ::
  "('k, 'e) env \<Rightarrow> 'k option \<Rightarrow> bytes \<Rightarrow> int \<Rightarrow> int \<Rightarrow> bool result" where
  "ecdsa_Verify_pub env pub hash r s =
     (case pub of None \<Rightarrow> Panics | Some k \<Rightarrow> Returns (ecdsa_Verify env k hash r s))"

definition validPayload ::
  "('k, 'e) env \<Rightarrow> bytes \<Rightarrow> string \<Rightarrow> 'k option \<Rightarrow> (bool \<times> error option) result" where
  "validPayload env data sig publicKey =
     (case base64_DecodeString env sig of
        (asnSig, err) \<Rightarrow>
          if err \<noteq> None then Returns (False, err)
          else (case asn1_Unmarshal env asnSig of
                  (rest, parsedSig, err) \<Rightarrow>
                    if err \<noteq> None \<or> length rest \<noteq> 0 then Returns (False, err)
                    else (let digest = sha256_Sum256 env data
                          in case ecdsa_Verify_pub env publicKey digest (R parsedSig) (S parsedSig) of
                               Panics \<Rightarrow> Panics
                             | Returns ok \<Rightarrow> Returns (ok, None))))"

section \<open>generateCompletion\<close>

text \<open>\<^verbatim>\<open>filepath.Join\<close> of a directory and the name of one of its entries, with the
  separator of Unix.\<close>

definition filepath_Join :: "string \<Rightarrow> string \<Rightarrow> string" where
  "filepath_Join dir name = dir @ ''/'' @ name"

text \<open>
  \<^verbatim>\<open>s.datasetsInit.Do(func() {...})\<close> and the test of \<^verbatim>\<open>err\<close> after it. The variable
  \<^verbatim>\<open>err\<close> is local to \<^verbatim>\<open>generateCompletion\<close> and starts as \<^verbatim>\<open>nil\<close>; only the
  function given to \<^verbatim>\<open>Do\<close> assigns it. The result is the value of \<^verbatim>\<open>err\<close> after
  \<^verbatim>\<open>Do\<close> returns.
\<close>

definition datasetsInit_Do ::
  "('k, 'e) env \<Rightarrow> string \<Rightarrow> string \<Rightarrow> ('k, 'e) world \<Rightarrow> error option \<times> ('k, 'e) world" where
  "datasetsInit_Do env integrationID apiToken s =
     (if datasetsInit (service s) then (None, s)
      else
        (let s1 = log_call (Call_ReadDir ''data'') (s\<lparr>service := (service s)\<lparr>datasetsInit := True\<rparr>\<rparr>)
         in case os_ReadDir env ''data'' of
              (files, Some err) \<Rightarrow>
                (Some (Wrap (''error reading files from '' @ [CHR 0x22] @ ''data'' @ [CHR 0x22] @ '' directory'') err), s1)
            | (files, None) \<Rightarrow>
                (let filenames = map (filepath_Join ''data'') files;
                     s2 = log_call (Call_GenerateDatasets integrationID apiToken filenames) s1
                 in case embedding_GenerateDatasets env integrationID apiToken filenames of
                      (ds, err) \<Rightarrow>
                        (let s3 = s2\<lparr>service := (service s2)\<lparr>datasets := ds\<rparr>\<rparr>
                         in case err of
                              Some e \<Rightarrow> (Some (Wrap ''error generating datasets'' e), s3)
                            | None \<Rightarrow> (None, s3)))))"

definition lPrePrompt :: string where
  "lPrePrompt =
     ''You are a senior Dynamics 365 Finance and Operations (D365 F&O) X++ developer assistant.'' @ nl @
     tab2 @ ''Your role is to assist developers with:'' @ nl @
     tab2 @ ''Writing, reviewing, and debugging X++ code.'' @ nl @
     tab2 @ ''Designing and implementing Data Entities, Classes, Forms, Extensions, Reports, and Workflows.'' @ nl @
     tab2 @ ''Helping with event handlers, Chain of Command (CoC), batch jobs, SysOperations framework, and custom services.'' @ nl @
     tab2 @ ''Offering best practices on performance optimization, security development (like XDS policies), unit testing, and development patterns.'' @ nl @
     tab2 @ ''Assisting with deployment, builds, and package management using LCS and Azure DevOps pipelines.'' @ nl @
     nl @
     tab2 @ ''You must:'' @ nl @
     tab2 @ ''Write code that is clean, modular, and well-documented.'' @ nl @
     tab2 @ ''Explain solutions step-by-step where necessary, assuming the user has an beginner to intermediate understanding of D365 F&O.'' @ nl @
     tab2 @ ''Follow D365 F&O Microsoft official guidelines for extensions (never overlayer unless explicitly asked).'' @ nl @
     tab2 @ ''When possible, recommend event handlers and extensions over customization.'' @ nl @
     tab2 @ ''Help troubleshoot common errors in the build process and runtime, and suggest troubleshooting steps or possible causes.'' @ nl @
     tab2 @ ''Suggest example X++ code snippets, SQL queries, or API call patterns related to D365 F&O when needed.'' @ nl @
     tab2 @ ''Assume the environment is D365 F&O latest version (OneVersion) and uses Visual Studio 2022 as the development environment.'' @ nl @
     nl @
     tab2 @ ''Never guess. If unsure, suggest a next action or direct the user to proper Microsoft Docs references.'' @ nl @
     tab2 @ ''Respond in a detailed, structured format, using headings, bullet points, and code blocks where applicable. '' @ nl @
     tab2 @ nl @
     tab2 @ ''Use the following context when responding to a message.'' @ [CHR 0x5C, CHR ''n'']"

text \<open>
  The body of the loop over the messages once a message with role \<^verbatim>\<open>"user"\<close> and
  non-empty content is found. Every path through it leaves the loop: \<open>Inl\<close> is the
  error returned, \<open>Inr\<close> the value of \<^verbatim>\<open>messages\<close> at the \<^verbatim>\<open>break\<close>.
\<close>

definition load_context ::
  "('k, 'e) env \<Rightarrow> string \<Rightarrow> string \<Rightarrow> ChatMessage \<Rightarrow> ('k, 'e) world
     \<Rightarrow> (error + ChatMessage list) \<times> ('k, 'e) world" where
  "load_context env integrationID apiToken msg s =
     (let s1 = log_call (Call_Create integrationID apiToken (Content msg)) s
      in case embedding_Create env integrationID apiToken (Content msg) of
           (emb, Some err) \<Rightarrow> (Inl (Wrap ''error creating embedding for user message'' err), s1)
         | (emb, None) \<Rightarrow>
             (let s2 = log_call (Call_FindBestDataset (datasets (service s1)) emb) s1
              in case embedding_FindBestDataset env (datasets (service s1)) emb of
                   (dataset, Some err) \<Rightarrow> (Inl (ErrorString ''error computing best dataset''), s2)
                 | (None, None) \<Rightarrow> (Inr [], s2)
                 | (Some dataset, None) \<Rightarrow>
                     (let s3 = log_call (Call_Open (Filename dataset)) s2
                      in case os_Open env (Filename dataset) of
                           (file, Some err) \<Rightarrow> (Inl (Wrap ''failed to open documents'' err), s3)
                         | (file, None) \<Rightarrow>
                             (let s4 = log_call (Call_ReadAll file) s3
                              in case io_ReadAll env file of
                                   (fileContents, Some err) \<Rightarrow>
                                     (Inl (Wrap ''failed to read documents'' err), s4)
                                 | (fileContents, None) \<Rightarrow>
                                     (Inr [\<lparr>Role = ''system'',
                                            Content = lPrePrompt @ ''Context: '' @ fileContents\<rparr>],
                                      s4)))))"

text \<open>
  \<^verbatim>\<open>for i := len(req.Messages) - 1; i >= 0; i--\<close>: the second argument is \<open>i + 1\<close>, so
  the loop starts at \<open>length msgs\<close> and ends at \<open>0\<close>.
\<close>

fun messages_loop ::
  "('k, 'e) env \<Rightarrow> string \<Rightarrow> string \<Rightarrow> ChatMessage list \<Rightarrow> nat \<Rightarrow> ('k, 'e) world
     \<Rightarrow> (error + ChatMessage list) \<times> ('k, 'e) world" where
  "messages_loop env integrationID apiToken msgs 0 s = (Inr [], s)"
| "messages_loop env integrationID apiToken msgs (Suc i) s =
     (let msg = msgs ! i
      in if Role msg \<noteq> ''user'' then messages_loop env integrationID apiToken msgs i s
         else if Content msg = '''' then messages_loop env integrationID apiToken msgs i s
         else load_context env integrationID apiToken msg s)"

text \<open>
  The relay of the downstream response, lines 193 to 214. The result is \<open>None\<close> when the
  loop never ends, which happens only on a downstream that produces tokens for ever
  while every write succeeds.
\<close>

partial_function (option) relay ::
  "('k, 'e) env \<Rightarrow> Scanner \<Rightarrow> ('k, 'e) world \<Rightarrow> (error option \<times> ('k, 'e) world) option" where
  "relay env reader s =
     (case reader of
        Scan_token buf rest \<Rightarrow>
          (case Write env buf s of
             (Some err, s1) \<Rightarrow> Some (Some (Wrap ''failed to write to stream'' err), s1)
           | (None, s1) \<Rightarrow>
               (case Write env nl s1 of
                  (Some err, s2) \<Rightarrow> Some (Some (Wrap ''failed to write delimiter to stream'' err), s2)
                | (None, s2) \<Rightarrow> relay env rest s2))
      | Scan_end None \<Rightarrow> Some (None, s)
      | Scan_end (Some err) \<Rightarrow>
          (if errors_Is err EOF then Some (None, s)
           else Some (Some (Wrap ''failed to read from stream'' err), s)))"

datatype outcome = Return "error option" | Panic

text \<open>
  \<^verbatim>\<open>generateCompletion\<close> up to the call of the completion service, lines 80 to 191.
  The request is a pointer: \<open>None\<close> is \<^verbatim>\<open>nil\<close>, and reading \<^verbatim>\<open>req.Messages\<close> then
  panics. \<open>Inl\<close> is the way \<^verbatim>\<open>generateCompletion\<close> ends before the relay (a return or
  that panic), \<open>Inr\<close> the stream to relay. The context \<^verbatim>\<open>ctx\<close> is only handed to the
  collaborators, and the lines printed to standard output and the deferred
  \<^verbatim>\<open>stream.Close()\<close> change nothing that is observed here; they are left out.
\<close>

definition open_stream ::
  "('k, 'e) env \<Rightarrow> string \<Rightarrow> string \<Rightarrow> ChatRequest option \<Rightarrow> ('k, 'e) world
     \<Rightarrow> (outcome + Scanner) \<times> ('k, 'e) world" where
  "open_stream env integrationID apiToken req s =
     (case datasetsInit_Do env integrationID apiToken s of
        (Some err, s1) \<Rightarrow> (Inl (Return (Some err)), s1)
      | (None, s1) \<Rightarrow>
          (case req of
             None \<Rightarrow> (Inl Panic, s1)
           | Some r \<Rightarrow>
               (case messages_loop env integrationID apiToken (Messages r) (length (Messages r)) s1 of
                  (Inl err, s2) \<Rightarrow> (Inl (Return (Some err)), s2)
                | (Inr messages, s2) \<Rightarrow>
                    (let messages' = messages @ Messages r;
                         chatReq = \<lparr>cc_Messages = messages', cc_Model = ModelGPT4o, cc_Stream = True\<rparr>;
                         s3 = log_call (Call_ChatCompletions ''copilot-chat'' apiToken chatReq) s2
                     in case copilot_ChatCompletions env ''copilot-chat'' apiToken chatReq of
                          (stream, Some err) \<Rightarrow>
                            (Inl (Return (Some (Wrap ''failed to get chat completions stream'' err))), s3)
                        | (stream, None) \<Rightarrow> (Inr stream, s3)))))"

text \<open>\<^verbatim>\<open>generateCompletion\<close>: the result is \<open>None\<close> when the relay never ends.\<close>

definition generateCompletion ::
  "('k, 'e) env \<Rightarrow> string \<Rightarrow> string \<Rightarrow> ChatRequest option \<Rightarrow> ('k, 'e) world
     \<Rightarrow> (outcome \<times> ('k, 'e) world) option" where
  "generateCompletion env integrationID apiToken req s =
     (case open_stream env integrationID apiToken req s of
        (Inl out, s1) \<Rightarrow> Some (out, s1)
      | (Inr stream, s1) \<Rightarrow>
          (case relay env stream s1 of
             None \<Rightarrow> None
           | Some (err, s2) \<Rightarrow> Some (Return err, s2)))"

section \<open>ChatCompletion\<close>

text \<open>
  The request as the handler reads it: the headers, under the names the handler asks
  for (\<^verbatim>\<open>Header.Get\<close> gives the empty string for a header that is absent), and the
  result of \<^verbatim>\<open>io.ReadAll(r.Body)\<close>.
\<close>

record Request =
  Header :: "string \<Rightarrow> string option"
  Body :: "bytes \<times> error option"

definition Header_Get :: "(string \<Rightarrow> string option) \<Rightarrow> string \<Rightarrow> string" where
  "Header_Get h key = (case h key of None \<Rightarrow> '''' | Some v \<Rightarrow> v)"

text \<open>The result is the state when the handler returns; \<open>None\<close> when it never does. A
  panic, in \<^verbatim>\<open>validPayload\<close> or in \<^verbatim>\<open>generateCompletion\<close>, ends the handler and leaves the
  state as it was when the panic happened.\<close>

definition ChatCompletion ::
  "('k, 'e) env \<Rightarrow> Request \<Rightarrow> ('k, 'e) world \<Rightarrow> ('k, 'e) world option" where
  "ChatCompletion env r s =
     (let sig = Header_Get (Header r) ''X-Github-Public-Key-Signature''
      in case Body r of
           (body, Some err) \<Rightarrow> Some (WriteHeader StatusInternalServerError s)
         | (body, None) \<Rightarrow>
             (case validPayload env body sig (pubKey (service s)) of
                Panics \<Rightarrow> Some s
              | Returns (isValid, Some err) \<Rightarrow> Some (WriteHeader StatusInternalServerError s)
              | Returns (isValid, None) \<Rightarrow>
                  if \<not> isValid
                  then Some (http_Error env ''invalid payload signature'' StatusUnauthorized s)
                  else
                    (let apiToken = Header_Get (Header r) ''X-GitHub-Token'';
                         integrationID = Header_Get (Header r) ''Copilot-Integration-Id''
                     in case json_Unmarshal env body of
                          (req, Some err) \<Rightarrow> Some (WriteHeader StatusBadRequest s)
                        | (req, None) \<Rightarrow>
                            (case generateCompletion env integrationID apiToken req s of
                               None \<Rightarrow> None
                             | Some (Return (Some err), s1) \<Rightarrow>
                                 Some (WriteHeader StatusInternalServerError s1)
                             | Some (Return None, s1) \<Rightarrow> Some s1
                             | Some (Panic, s1) \<Rightarrow> Some s1))))"

section \<open>Observations and scenarios\<close>

text \<open>What the collaborators saw: the texts given to \<^verbatim>\<open>embedding.Create\<close>, the requests
  given to \<^verbatim>\<open>copilot.ChatCompletions\<close>, and the number of directory enumerations and of
  dataset generations.\<close>

fun created :: "'e call list \<Rightarrow> string list" where
  "created [] = []"
| "created (Call_Create integrationID apiToken content # cs) = content # created cs"
| "created (c # cs) = created cs"

fun forwarded :: "'e call list \<Rightarrow> ChatCompletionsRequest list" where
  "forwarded [] = []"
| "forwarded (Call_ChatCompletions integrationID apiToken chatReq # cs) = chatReq # forwarded cs"
| "forwarded (c # cs) = forwarded cs"

fun enumerations :: "'e call list \<Rightarrow> nat" where
  "enumerations [] = 0"
| "enumerations (Call_ReadDir dir # cs) = Suc (enumerations cs)"
| "enumerations (c # cs) = enumerations cs"

fun generations :: "'e call list \<Rightarrow> nat" where
  "generations [] = 0"
| "generations (Call_GenerateDatasets integrationID apiToken filenames # cs) = Suc (generations cs)"
| "generations (c # cs) = generations cs"

text \<open>The spec's words: the most recent message with role "user" that has non-empty
  content.\<close>

definition most_recent_user_message :: "ChatMessage list \<Rightarrow> ChatMessage option" where
  "most_recent_user_message msgs =
     find (\<lambda>m. Role m = ''user'' \<and> Content m \<noteq> '''') (rev msgs)"

text \<open>The synthesized system message of lines 170 to 174.\<close>

definition system_message :: "bytes \<Rightarrow> ChatMessage" where
  "system_message fileContents =
     \<lparr>Role = ''system'', Content = lPrePrompt @ ''Context: '' @ fileContents\<rparr>"

text \<open>A downstream that ends: the units \<open>us\<close>, then \<^verbatim>\<open>Scan()\<close> returns false with
  \<^verbatim>\<open>Err() = e\<close>. \<open>framed us\<close> is the buffers the relay writes for them, in order.\<close>

primrec Scanner_of :: "bytes list \<Rightarrow> error option \<Rightarrow> Scanner" where
  "Scanner_of [] e = Scan_end e"
| "Scanner_of (u # us) e = Scan_token u (Scanner_of us e)"

primrec framed :: "bytes list \<Rightarrow> bytes list" where
  "framed [] = []"
| "framed (u # us) = u # nl # framed us"

text \<open>Every write of the buffers \<open>bs\<close>, made from call number \<open>k\<close> of \<^verbatim>\<open>Write\<close> on,
  succeeds; and the downstream ended normally (no error, or \<^verbatim>\<open>io.EOF\<close>).\<close>

fun writes_ok :: "('k, 'e) env \<Rightarrow> nat \<Rightarrow> bytes list \<Rightarrow> bool" where
  "writes_ok env k [] = True"
| "writes_ok env k (b # bs) = (snd (w_Write env k b) = None \<and> writes_ok env (Suc k) bs)"

definition normal_end :: "error option \<Rightarrow> bool" where
  "normal_end e = (case e of None \<Rightarrow> True | Some err \<Rightarrow> errors_Is err EOF)"

text \<open>A new process whose service has the key \<open>k\<close>, with a new response, and the response
  of the next request (the service and the record of calls stay).\<close>

definition new_world :: "'k \<Rightarrow> ('k, 'e) world" where
  "new_world k = \<lparr>service = NewService (Some k), calls = [], wroteHeader = None, written = [], nwrites = 0\<rparr>"

definition next_response :: "('k, 'e) world \<Rightarrow> ('k, 'e) world" where
  "next_response s = s\<lparr>wroteHeader := None, written := [], nwrites := 0\<rparr>"

text \<open>Callers of the ensure-step one after the other, each with its own collaborators,
  integration id and token; the result lists what each caller got as \<^verbatim>\<open>err\<close>.\<close>

fun ensure_callers ::
  "(('k, 'e) env \<times> string \<times> string) list \<Rightarrow> ('k, 'e) world \<Rightarrow> error option list \<times> ('k, 'e) world" where
  "ensure_callers [] s = ([], s)"
| "ensure_callers ((env, integrationID, apiToken) # cs) s =
     (case datasetsInit_Do env integrationID apiToken s of
        (err, s1) \<Rightarrow> (case ensure_callers cs s1 of (errs, s2) \<Rightarrow> (err # errs, s2)))"

subsection \<open>Example collaborators\<close>

text \<open>
  Test doubles for the examples below. \<open>der_sig\<close> is the DER encoding of the sequence of
  the integers 1 and 1; its base64 text is \<^verbatim>\<open>MAYCAQECAQE=\<close>, and \<^verbatim>\<open>MAYCAQECAQEA\<close> is
  the base64 text of \<open>der_sig\<close> followed by one zero byte. The double of
  \<^verbatim>\<open>ecdsa.Verify\<close> accepts the pair (1, 1) under key 7 for the digest of \<open>example_body\<close>.
\<close>

definition der_sig :: bytes where
  "der_sig = [CHR 0x30, CHR 0x06, CHR 0x02, CHR 0x01, CHR 0x01, CHR 0x02, CHR 0x01, CHR 0x01]"

definition js :: "string \<Rightarrow> string" where
  "js x = [CHR 0x22] @ x @ [CHR 0x22]"

definition example_body :: bytes where
  "example_body =
     ''{'' @ js ''messages'' @ '':[{'' @ js ''role'' @ '':'' @ js ''user'' @ '','' @ js ''content'' @ '':'' @ js ''a'' @ ''},{''
       @ js ''role'' @ '':'' @ js ''assistant'' @ '','' @ js ''content'' @ '':'' @ js ''b'' @ ''},{''
       @ js ''role'' @ '':'' @ js ''user'' @ '','' @ js ''content'' @ '':'' @ js ''c'' @ ''}]}''"

definition example_request :: ChatRequest where
  "example_request =
     \<lparr>Messages = [\<lparr>Role = ''user'', Content = ''a''\<rparr>,
                  \<lparr>Role = ''assistant'', Content = ''b''\<rparr>,
                  \<lparr>Role = ''user'', Content = ''c''\<rparr>]\<rparr>"

definition example_env :: "(nat, nat) env" where
  "example_env =
     \<lparr>base64_DecodeString =
        (\<lambda>sig. if sig = ''MAYCAQECAQE='' then (der_sig, None)
               else if sig = ''MAYCAQECAQEA'' then (der_sig @ [CHR 0x00], None)
               else if sig = '''' then ([], None)
               else ([], Some (ErrorString ''illegal base64 data at input byte 0''))),
      asn1_Unmarshal =
        (\<lambda>b. if b = der_sig then ([], \<lparr>R = 1, S = 1\<rparr>, None)
             else if b = der_sig @ [CHR 0x00] then ([CHR 0x00], \<lparr>R = 1, S = 1\<rparr>, None)
             else ([], \<lparr>R = 0, S = 0\<rparr>, Some (ErrorString ''asn1: syntax error: sequence truncated''))),
      sha256_Sum256 = (\<lambda>data. ''sha256:'' @ data),
      ecdsa_Verify = (\<lambda>k digest r s. k = 7 \<and> digest = ''sha256:'' @ example_body \<and> r = 1 \<and> s = 1),
      json_Unmarshal =
        (\<lambda>b. if b = example_body then (Some example_request, None)
             else if b = ''null'' then (None, None)
             else (None, Some (ErrorString ''invalid character''))),
      os_ReadDir = (\<lambda>dir. ([''batch.md''], None)),
      embedding_GenerateDatasets =
        (\<lambda>integrationID apiToken filenames.
           (map (\<lambda>f. \<lparr>Filename = f, Embedding = length f\<rparr>) filenames, None)),
      embedding_Create = (\<lambda>integrationID apiToken content. (length content, None)),
      embedding_FindBestDataset = (\<lambda>ds emb. (case ds of [] \<Rightarrow> None | d # _ \<Rightarrow> Some d, None)),
      os_Open = (\<lambda>name. (3, None)),
      io_ReadAll = (\<lambda>file. (''# Batch Job Template'', None)),
      copilot_ChatCompletions =
        (\<lambda>integrationID apiToken chatReq.
           (Scanner_of [''data: hello'', ''data: [DONE]''] None, None)),
      w_Write = (\<lambda>k p. (length p, None))\<rparr>"

text \<open>The same collaborators when the directory \<^verbatim>\<open>data\<close> cannot be read.\<close>

definition example_env_no_data :: "(nat, nat) env" where
  "example_env_no_data =
     example_env\<lparr>os_ReadDir := (\<lambda>dir. ([], Some (ErrorString ''open data: no such file or directory'')))\<rparr>"

text \<open>The same collaborators when the third call of \<^verbatim>\<open>Write\<close> on the response fails
  after three bytes.\<close>

definition example_env_broken_pipe :: "(nat, nat) env" where
  "example_env_broken_pipe =
     example_env\<lparr>w_Write := (\<lambda>k p. if k = 2 then (3, Some (ErrorString ''broken pipe''))
                                   else (length p, None))\<rparr>"

definition example_headers :: "string \<Rightarrow> string \<Rightarrow> string option" where
  "example_headers sig =
     [''X-Github-Public-Key-Signature'' \<mapsto> sig, ''X-GitHub-Token'' \<mapsto> ''token'',
      ''Copilot-Integration-Id'' \<mapsto> ''42'']"

section \<open>Properties of the parts\<close>

subsection \<open>The record of calls and the response\<close>

lemma created_append [simp]: "created (xs @ ys) = created xs @ created ys"
  by (induction xs rule: created.induct) simp_all

lemma forwarded_append [simp]: "forwarded (xs @ ys) = forwarded xs @ forwarded ys"
  by (induction xs rule: forwarded.induct) simp_all

lemma enumerations_append [simp]: "enumerations (xs @ ys) = enumerations xs + enumerations ys"
  by (induction xs rule: enumerations.induct) simp_all

lemma generations_append [simp]: "generations (xs @ ys) = generations xs + generations ys"
  by (induction xs rule: generations.induct) simp_all

lemma log_call_simps [simp]:
  "calls (log_call c s) = calls s @ [c]" "service (log_call c s) = service s"
  "written (log_call c s) = written s" "nwrites (log_call c s) = nwrites s"
  "wroteHeader (log_call c s) = wroteHeader s"
  by (simp_all add: log_call_def)

lemma messages_loop_find:
  "n \<le> length msgs \<Longrightarrow>
   messages_loop env i t msgs n s =
     (case find (\<lambda>m. Role m = ''user'' \<and> Content m \<noteq> '''') (rev (take n msgs)) of
        None \<Rightarrow> (Inr [], s)
      | Some m \<Rightarrow> load_context env i t m s)"
proof (induction n)
  case 0
  then show ?case by simp
next
  case (Suc n)
  then have "take (Suc n) msgs = take n msgs @ [msgs ! n]"
    by (simp add: take_Suc_conv_app_nth)
  with Suc show ?case by (simp add: Let_def)
qed

lemma messages_loop_most_recent:
  "messages_loop env i t msgs (length msgs) s =
     (case most_recent_user_message msgs of
        None \<Rightarrow> (Inr [], s)
      | Some m \<Rightarrow> load_context env i t m s)"
  by (simp add: messages_loop_find most_recent_user_message_def)

lemma load_context_created:
  "created (calls (snd (load_context env i t m s))) = created (calls s) @ [Content m]"
  by (simp add: load_context_def Let_def split: prod.splits option.splits)

lemma load_context_forwarded:
  "forwarded (calls (snd (load_context env i t m s))) = forwarded (calls s)"
  by (simp add: load_context_def Let_def split: prod.splits option.splits)

lemma load_context_service:
  "service (snd (load_context env i t m s)) = service s"
  by (simp add: load_context_def Let_def split: prod.splits option.splits)

lemma load_context_messages:
  "fst (load_context env i t m s) = Inr ms \<Longrightarrow> ms = [] \<or> (\<exists>c. ms = [system_message c])"
  by (auto simp: load_context_def Let_def system_message_def split: prod.splits option.splits)

lemma load_context_selected:
  assumes "embedding_Create env i t (Content m) = (emb, None)"
    and "embedding_FindBestDataset env (datasets (service s)) emb = (Some d, None)"
    and "os_Open env (Filename d) = (file, None)"
    and "io_ReadAll env file = (fileContents, None)"
  shows "fst (load_context env i t m s) = Inr [system_message fileContents]"
  using assms by (simp add: load_context_def Let_def system_message_def)

lemma datasetsInit_Do_done:
  "datasetsInit (service s) \<Longrightarrow> datasetsInit_Do env i t s = (None, s)"
  by (simp add: datasetsInit_Do_def)

lemma datasetsInit_Do_sets_done:
  "datasetsInit (service (snd (datasetsInit_Do env i t s)))"
  by (simp add: datasetsInit_Do_def Let_def split: prod.splits option.splits)

lemma datasetsInit_Do_created:
  "created (calls (snd (datasetsInit_Do env i t s))) = created (calls s)"
  by (simp add: datasetsInit_Do_def Let_def split: prod.splits option.splits)

lemma datasetsInit_Do_forwarded:
  "forwarded (calls (snd (datasetsInit_Do env i t s))) = forwarded (calls s)"
  by (simp add: datasetsInit_Do_def Let_def split: prod.splits option.splits)

lemma WriteHeader_frame [simp]:
  "calls (WriteHeader c s) = calls s" "service (WriteHeader c s) = service s"
  "written (WriteHeader c s) = written s" "nwrites (WriteHeader c s) = nwrites s"
  by (simp_all add: WriteHeader_def)

lemma Write_frame [simp]:
  "calls (snd (Write env p s)) = calls s" "service (snd (Write env p s)) = service s"
  "nwrites (snd (Write env p s)) = Suc (nwrites s)"
  by (simp_all add: Write_def split: prod.splits)

lemma Write_ok:
  "fst (Write env p s) = None \<Longrightarrow> written (snd (Write env p s)) = written s @ p"
  by (simp add: Write_def split: prod.splits)

lemma Write_written:
  "\<exists>n. written (snd (Write env p s)) = written s @ take n p"
  by (auto simp: Write_def split: prod.splits intro: exI[of _ "length p"])

lemma Write_fst: "fst (Write env p s) = snd (w_Write env (nwrites s) p)"
  by (simp add: Write_def split: prod.splits)


lemma relay_frame:
  "relay env reader s = Some y \<Longrightarrow> calls (snd y) = calls s \<and> service (snd y) = service s"
proof (induction rule: relay.raw_induct[rotated 1, consumes 1])
  case (1 relay' env reader s y)
  show ?case
  proof (cases reader)
    case (Scan_token buf rest)
    obtain w1 s1 where w1: "Write env buf s = (w1, s1)" by (cases "Write env buf s")
    obtain w2 s2 where w2: "Write env nl s1 = (w2, s2)" by (cases "Write env nl s1")
    have f1: "calls s1 = calls s \<and> service s1 = service s"
      using Write_frame(1,2)[of env buf s] w1 by simp
    have f2: "calls s2 = calls s1 \<and> service s2 = service s1"
      using Write_frame(1,2)[of env nl s1] w2 by simp
    show ?thesis
    proof (cases w1)
      case (Some e)
      with 1(2) Scan_token w1 f1 show ?thesis by auto
    next
      case None
      show ?thesis
      proof (cases w2)
        case (Some e)
        with 1(2) Scan_token w1 w2 None f1 f2 show ?thesis by auto
      next
        case n2: None
        with 1(2) Scan_token w1 w2 None have "relay' env rest s2 = Some y" by simp
        from 1(1)[OF this] f1 f2 show ?thesis by simp
      qed
    qed
  next
    case (Scan_end e)
    with 1(2) show ?thesis by (auto split: option.splits if_splits)
  qed
qed

subsection \<open>The relay on a downstream that ends\<close>

lemma relay_end:
  "relay env (Scan_end e) s =
     Some (if normal_end e then None else Some (Wrap ''failed to read from stream'' (the e)), s)"
  by (subst relay.simps) (simp add: normal_end_def split: option.splits)

lemma relay_token:
  "relay env (Scan_token buf rest) s =
     (case Write env buf s of
        (Some err, s1) \<Rightarrow> Some (Some (Wrap ''failed to write to stream'' err), s1)
      | (None, s1) \<Rightarrow>
          (case Write env nl s1 of
             (Some err, s2) \<Rightarrow> Some (Some (Wrap ''failed to write delimiter to stream'' err), s2)
           | (None, s2) \<Rightarrow> relay env rest s2))"
  by (subst relay.simps) simp

lemma relay_finite:
  "\<exists>r s' x y. relay env (Scanner_of us e) s = Some (r, s') \<and> written s' = written s @ x \<and>
      concat (framed us) = x @ y \<and>
      (r = None \<longleftrightarrow> writes_ok env (nwrites s) (framed us) \<and> normal_end e) \<and>
      (r = None \<longrightarrow> y = [])"
proof (induction us arbitrary: s)
  case Nil
  show ?case by (simp add: relay_end)
next
  case (Cons u us)
  obtain w1 s1 where w1: "Write env u s = (w1, s1)" by (cases "Write env u s")
  obtain w2 s2 where w2: "Write env nl s1 = (w2, s2)" by (cases "Write env nl s1")
  have n1: "nwrites s1 = Suc (nwrites s)" using Write_frame(3)[of env u s] w1 by simp
  have n2: "nwrites s2 = Suc (Suc (nwrites s))" using Write_frame(3)[of env nl s1] w2 n1 by simp
  have k1: "w1 = snd (w_Write env (nwrites s) u)" using Write_fst[of env u s] w1 by simp
  have k2: "w2 = snd (w_Write env (Suc (nwrites s)) nl)" using Write_fst[of env nl s1] w2 n1 by simp
  obtain m1 where m1: "written s1 = written s @ take m1 u"
    using Write_written[of env u s] w1 by auto
  obtain m2 where m2: "written s2 = written s1 @ take m2 nl"
    using Write_written[of env nl s1] w2 by auto
  show ?case
  proof (cases w1)
    case (Some err)
    have "concat (framed (u # us)) = take m1 u @ (drop m1 u @ nl @ concat (framed us))" by simp
    with Some w1 k1 m1 show ?thesis
      by (simp only: relay_token Scanner_of.simps) (auto simp del: append_take_drop_id)
  next
    case None
    then have o1: "written s1 = written s @ u" using Write_ok[of env u s] w1 by simp
    show ?thesis
    proof (cases w2)
      case (Some err)
      have "concat (framed (u # us)) = (u @ take m2 nl) @ (drop m2 nl @ concat (framed us))" by simp
      with Some None w1 w2 k1 k2 m2 o1 show ?thesis
        by (simp only: relay_token Scanner_of.simps) (auto simp del: append_take_drop_id)
    next
      case n: None
      then have o2: "written s2 = written s @ u @ nl" using Write_ok[of env nl s1] w2 o1 by simp
      from Cons.IH[of s2] obtain r s' x y where
        ih: "relay env (Scanner_of us e) s2 = Some (r, s')" "written s' = written s2 @ x"
            "concat (framed us) = x @ y"
            "r = None \<longleftrightarrow> writes_ok env (nwrites s2) (framed us) \<and> normal_end e"
            "r = None \<longrightarrow> y = []"
        by blast
      have "relay env (Scanner_of (u # us) e) s = Some (r, s')"
        using ih(1) w1 w2 None n by (simp add: relay_token)
      moreover have "written s' = written s @ (u @ nl @ x)" using ih(2) o2 by simp
      moreover have "concat (framed (u # us)) = (u @ nl @ x) @ y" using ih(3) by simp
      moreover have "r = None \<longleftrightarrow> writes_ok env (nwrites s) (framed (u # us)) \<and> normal_end e"
        using ih(4) n2 k1 k2 None n by simp
      ultimately show ?thesis using ih(5) by blast
    qed
  qed
qed

lemma Write_result:
  assumes "w_Write env (nwrites s) p = (n, err)"
  shows "fst (Write env p s) = err"
    and "written (snd (Write env p s)) = written s @ (if err = None then p else take n p)"
  using assms by (simp_all add: Write_def)

lemma relay_writes_ok:
  "writes_ok env (nwrites s) (framed us) \<Longrightarrow>
   \<exists>s'. relay env (Scanner_of us e) s =
           Some (if normal_end e then None else Some (Wrap ''failed to read from stream'' (the e)), s') \<and>
         written s' = written s @ concat (framed us)"
proof (induction us arbitrary: s)
  case Nil
  show ?case by (simp add: relay_end)
next
  case (Cons u us)
  obtain w1 s1 where w1: "Write env u s = (w1, s1)" by (cases "Write env u s")
  obtain w2 s2 where w2: "Write env nl s1 = (w2, s2)" by (cases "Write env nl s1")
  have n1: "nwrites s1 = Suc (nwrites s)" using Write_frame(3)[of env u s] w1 by simp
  have n2: "nwrites s2 = Suc (Suc (nwrites s))" using Write_frame(3)[of env nl s1] w2 n1 by simp
  have k1: "w1 = None" using Write_fst[of env u s] w1 Cons.prems by simp
  have k2: "w2 = None" using Write_fst[of env nl s1] w2 n1 Cons.prems by simp
  have o1: "written s1 = written s @ u" using Write_ok[of env u s] w1 k1 by simp
  have o2: "written s2 = written s @ u @ nl" using Write_ok[of env nl s1] w2 k2 o1 by simp
  have "writes_ok env (nwrites s2) (framed us)" using Cons.prems n2 by simp
  from Cons.IH[OF this] obtain s' where
    ih: "relay env (Scanner_of us e) s2 =
           Some (if normal_end e then None else Some (Wrap ''failed to read from stream'' (the e)), s')"
        "written s' = written s2 @ concat (framed us)"
    by blast
  have "relay env (Scanner_of (u # us) e) s =
           Some (if normal_end e then None else Some (Wrap ''failed to read from stream'' (the e)), s')"
    using ih(1) w1 w2 k1 k2 by (simp add: relay_token)
  moreover have "written s' = written s @ concat (framed (u # us))" using ih(2) o2 by simp
  ultimately show ?case by blast
qed

lemma relay_write_failure:
  "j < length (framed us) \<Longrightarrow> writes_ok env (nwrites s) (take j (framed us)) \<Longrightarrow>
   w_Write env (nwrites s + j) (framed us ! j) = (n, Some err) \<Longrightarrow>
   \<exists>s'. relay env (Scanner_of us e) s =
           Some (Some (Wrap (if even j then ''failed to write to stream''
                             else ''failed to write delimiter to stream'') err), s') \<and>
         written s' = written s @ concat (take j (framed us)) @ take n (framed us ! j)"
proof (induction us arbitrary: s j)
  case Nil
  then show ?case by simp
next
  case (Cons u us)
  obtain w1 s1 where w1: "Write env u s = (w1, s1)" by (cases "Write env u s")
  obtain w2 s2 where w2: "Write env nl s1 = (w2, s2)" by (cases "Write env nl s1")
  have n1: "nwrites s1 = Suc (nwrites s)" using Write_frame(3)[of env u s] w1 by simp
  have n2: "nwrites s2 = Suc (Suc (nwrites s))" using Write_frame(3)[of env nl s1] w2 n1 by simp
  show ?case
  proof (cases j)
    case 0
    with Cons.prems have f: "w_Write env (nwrites s) u = (n, Some err)" by simp
    from Write_result[OF f] w1 have "w1 = Some err" "written s1 = written s @ take n u" by simp_all
    with w1 0 show ?thesis by (simp add: relay_token)
  next
    case (Suc j1)
    with Cons.prems have a1: "snd (w_Write env (nwrites s) u) = None" by simp
    then have k1: "w1 = None" using Write_fst[of env u s] w1 by simp
    have o1: "written s1 = written s @ u" using Write_ok[of env u s] w1 k1 by simp
    show ?thesis
    proof (cases j1)
      case 0
      with Suc Cons.prems have f: "w_Write env (nwrites s1) nl = (n, Some err)" using n1 by simp
      from Write_result[OF f] w2 have "w2 = Some err" "written s2 = written s1 @ take n nl" by simp_all
      with w1 w2 k1 o1 0 Suc show ?thesis by (simp add: relay_token)
    next
      case (Suc j2)
      with \<open>j = Suc j1\<close> Cons.prems have a2: "snd (w_Write env (Suc (nwrites s)) nl) = None" by simp
      then have k2: "w2 = None" using Write_fst[of env nl s1] w2 n1 by simp
      have o2: "written s2 = written s @ u @ nl" using Write_ok[of env nl s1] w2 k2 o1 by simp
      have p1: "j2 < length (framed us)" using Cons.prems(1) Suc \<open>j = Suc j1\<close> by simp
      have p2: "writes_ok env (nwrites s2) (take j2 (framed us))"
        using Cons.prems(2) Suc \<open>j = Suc j1\<close> n2 by simp
      have p3: "w_Write env (nwrites s2 + j2) (framed us ! j2) = (n, Some err)"
        using Cons.prems(3) Suc \<open>j = Suc j1\<close> n2 by simp
      from Cons.IH[OF p1 p2 p3] obtain s' where
        ih: "relay env (Scanner_of us e) s2 =
           Some (Some (Wrap (if even j2 then ''failed to write to stream''
                             else ''failed to write delimiter to stream'') err), s')"
          "written s' = written s2 @ concat (take j2 (framed us)) @ take n (framed us ! j2)"
        by blast
      have "relay env (Scanner_of (u # us) e) s =
           Some (Some (Wrap (if even j then ''failed to write to stream''
                             else ''failed to write delimiter to stream'') err), s')"
        using ih(1) w1 w2 k1 k2 Suc \<open>j = Suc j1\<close> by (simp add: relay_token)
      moreover have "written s' = written s @ concat (take j (framed (u # us))) @ take n (framed (u # us) ! j)"
        using ih(2) o2 Suc \<open>j = Suc j1\<close> by simp
      ultimately show ?thesis by blast
    qed
  qed
qed

lemma writes_ok_or_first_failure:
  "writes_ok env k bs \<or>
   (\<exists>j n err. j < length bs \<and> writes_ok env k (take j bs) \<and> w_Write env (k + j) (bs ! j) = (n, Some err))"
proof (induction bs arbitrary: k)
  case Nil
  show ?case by simp
next
  case (Cons b bs)
  show ?case
  proof (cases "w_Write env k b")
    case (Pair n e)
    show ?thesis
    proof (cases e)
      case None
      from Cons.IH[of "Suc k"] show ?thesis
      proof
        assume "writes_ok env (Suc k) bs"
        with Pair None show ?thesis by simp
      next
        assume "\<exists>j n err. j < length bs \<and> writes_ok env (Suc k) (take j bs) \<and>
                   w_Write env (Suc k + j) (bs ! j) = (n, Some err)"
        then obtain j n' err where j: "j < length bs" "writes_ok env (Suc k) (take j bs)"
          "w_Write env (Suc k + j) (bs ! j) = (n', Some err)" by blast
        have "Suc j < length (b # bs) \<and> writes_ok env k (take (Suc j) (b # bs)) \<and>
              w_Write env (k + Suc j) ((b # bs) ! Suc j) = (n', Some err)"
          using j Pair None by simp
        then show ?thesis by blast
      qed
    next
      case (Some err)
      have "0 < length (b # bs) \<and> writes_ok env k (take 0 (b # bs)) \<and>
            w_Write env (k + 0) ((b # bs) ! 0) = (n, Some err)"
        using Pair Some by simp
      then show ?thesis by blast
    qed
  qed
qed

subsection \<open>Opening the stream\<close>

lemma generateCompletion_calls:
  assumes "generateCompletion env i t req s = Some (out, s')"
  shows "calls s' = calls (snd (open_stream env i t req s)) \<and>
         service s' = service (snd (open_stream env i t req s))"
proof (cases "open_stream env i t req s")
  case (Pair a s1)
  show ?thesis
  proof (cases a)
    case (Inl o1)
    with Pair assms show ?thesis by (simp add: generateCompletion_def)
  next
    case (Inr stream)
    with Pair assms obtain err where "relay env stream s1 = Some (err, s')"
      by (auto simp: generateCompletion_def split: option.splits)
    from relay_frame[OF this] Pair show ?thesis by simp
  qed
qed

lemma open_stream_created:
  "created (calls (snd (open_stream env i t (Some req) s))) =
     created (calls s) @
       (if fst (datasetsInit_Do env i t s) = None
        then (case most_recent_user_message (Messages req) of None \<Rightarrow> [] | Some m \<Rightarrow> [Content m])
        else [])"
proof (cases "datasetsInit_Do env i t s")
  case (Pair e s1)
  have c1: "created (calls s1) = created (calls s)"
    using datasetsInit_Do_created[of env i t s] Pair by simp
  show ?thesis
  proof (cases e)
    case (Some err)
    with Pair c1 show ?thesis by (simp add: open_stream_def)
  next
    case None
    show ?thesis
    proof (cases "most_recent_user_message (Messages req)")
      case n: None
      with Pair None c1 show ?thesis
        by (simp add: open_stream_def messages_loop_most_recent Let_def split: prod.splits option.splits)
    next
      case (Some m)
      obtain a s2 where l: "load_context env i t m s1 = (a, s2)" by (cases "load_context env i t m s1")
      have "created (calls s2) = created (calls s1) @ [Content m]"
        using load_context_created[of env i t m s1] l by simp
      with Pair None c1 Some l show ?thesis
        by (cases a) (simp_all add: open_stream_def messages_loop_most_recent Let_def split: prod.splits option.splits)
    qed
  qed
qed

lemma most_recent_none:
  "most_recent_user_message msgs = None \<longleftrightarrow> (\<forall>m\<in>set msgs. Role m \<noteq> ''user'' \<or> Content m = '''')"
  by (auto simp: most_recent_user_message_def find_None_iff)

lemma open_stream_no_user_message:
  assumes "\<forall>m\<in>set (Messages req). Role m \<noteq> ''user'' \<or> Content m = ''''"
  shows "calls (snd (open_stream env i t (Some req) s)) =
           calls (snd (datasetsInit_Do env i t s)) @
             (if fst (datasetsInit_Do env i t s) = None
              then [Call_ChatCompletions ''copilot-chat'' t
                      \<lparr>cc_Messages = Messages req, cc_Model = ModelGPT4o, cc_Stream = True\<rparr>]
              else [])"
proof -
  from assms have n: "most_recent_user_message (Messages req) = None" by (simp add: most_recent_none)
  show ?thesis
    by (cases "datasetsInit_Do env i t s")
       (simp add: open_stream_def messages_loop_most_recent n Let_def split: prod.splits option.splits)
qed

lemma open_stream_selected:
  assumes "datasetsInit_Do env i t s = (None, s1)"
    and "most_recent_user_message (Messages req) = Some m"
    and "embedding_Create env i t (Content m) = (emb, None)"
    and "embedding_FindBestDataset env (datasets (service s1)) emb = (Some d, None)"
    and "os_Open env (Filename d) = (file, None)"
    and "io_ReadAll env file = (fileContents, None)"
  shows "forwarded (calls (snd (open_stream env i t (Some req) s))) =
           forwarded (calls s) @
             [\<lparr>cc_Messages = system_message fileContents # Messages req,
               cc_Model = ModelGPT4o, cc_Stream = True\<rparr>]"
proof -
  obtain a s2 where l: "load_context env i t m s1 = (a, s2)" by (cases "load_context env i t m s1")
  have a: "a = Inr [system_message fileContents]"
    using load_context_selected[OF assms(3-6)] l by simp
  have f2: "forwarded (calls s2) = forwarded (calls s1)"
    using load_context_forwarded[of env i t m s1] l by simp
  have f1: "forwarded (calls s1) = forwarded (calls s)"
    using datasetsInit_Do_forwarded[of env i t s] assms(1) by simp
  show ?thesis using assms(1,2) l a f1 f2
    by (simp add: open_stream_def messages_loop_most_recent Let_def split: prod.splits option.splits)
qed

lemma open_stream_forwarded:
  "\<exists>pre. length pre \<le> 1 \<and> (\<forall>m\<in>set pre. \<exists>c. m = system_message c) \<and>
     (forwarded (calls (snd (open_stream env i t (Some req) s))) = forwarded (calls s) \<or>
      forwarded (calls (snd (open_stream env i t (Some req) s))) =
        forwarded (calls s) @ [\<lparr>cc_Messages = pre @ Messages req, cc_Model = ModelGPT4o, cc_Stream = True\<rparr>])"
proof (cases "datasetsInit_Do env i t s")
  case (Pair e s1)
  have f1: "forwarded (calls s1) = forwarded (calls s)"
    using datasetsInit_Do_forwarded[of env i t s] Pair by simp
  show ?thesis
  proof (cases e)
    case (Some err)
    with Pair f1 show ?thesis by (auto simp: open_stream_def intro: exI[of _ "[]"])
  next
    case None
    show ?thesis
    proof (cases "most_recent_user_message (Messages req)")
      case n: None
      with Pair None f1 show ?thesis
        by (auto simp: open_stream_def messages_loop_most_recent Let_def split: prod.splits option.splits
            intro!: exI[of _ "[]"])
    next
      case (Some m)
      obtain a s2 where l: "load_context env i t m s1 = (a, s2)" by (cases "load_context env i t m s1")
      have f2: "forwarded (calls s2) = forwarded (calls s1)"
        using load_context_forwarded[of env i t m s1] l by simp
      show ?thesis
      proof (cases a)
        case (Inl err)
        with Pair None Some l f1 f2 show ?thesis
          by (auto simp: open_stream_def messages_loop_most_recent intro: exI[of _ "[]"])
      next
        case (Inr ms)
        with load_context_messages[of env i t m s1 ms] l
        have ms: "ms = [] \<or> (\<exists>c. ms = [system_message c])" by simp
        have "forwarded (calls (snd (open_stream env i t (Some req) s))) =
                forwarded (calls s) @ [\<lparr>cc_Messages = ms @ Messages req, cc_Model = ModelGPT4o, cc_Stream = True\<rparr>]"
          using Pair None Some l f1 f2 Inr
          by (simp add: open_stream_def messages_loop_most_recent Let_def split: prod.splits option.splits)
        moreover have "length ms \<le> 1 \<and> (\<forall>m\<in>set ms. \<exists>c. m = system_message c)" using ms by auto
        ultimately show ?thesis by blast
      qed
    qed
  qed
qed

subsection \<open>validPayload and the handler\<close>

lemma validPayload_base64_error:
  "base64_DecodeString env sig = (asnSig, Some e) \<Longrightarrow> validPayload env data sig k = Returns (False, Some e)"
  by (simp add: validPayload_def)


lemma validPayload_verify:
  "base64_DecodeString env sig = (asnSig, None) \<Longrightarrow> asn1_Unmarshal env asnSig = ([], p, None)
   \<Longrightarrow> validPayload env data sig (Some k) =
         Returns (ecdsa_Verify env k (sha256_Sum256 env data) (R p) (S p), None)"
  by (simp add: validPayload_def ecdsa_Verify_pub_def)


lemma wroteHeader_WriteHeader:
  "wroteHeader s = None \<Longrightarrow> wroteHeader (WriteHeader c s) = Some c"
  by (simp add: WriteHeader_def)

lemma http_Error_frame [simp]:
  "calls (http_Error env msg c s) = calls s" "service (http_Error env msg c s) = service s"
  by (simp_all add: http_Error_def)

lemma wroteHeader_http_Error:
  "wroteHeader s = None \<Longrightarrow> wroteHeader (http_Error env msg c s) = Some c"
  by (simp add: http_Error_def Write_def WriteHeader_def split: prod.splits)

lemma validPayload_json [simp]:
  "validPayload (env\<lparr>json_Unmarshal := j\<rparr>) data sig k = validPayload env data sig k"
proof -
  have "ecdsa_Verify_pub (env\<lparr>json_Unmarshal := j\<rparr>) = ecdsa_Verify_pub env"
    by (intro ext) (simp add: ecdsa_Verify_pub_def split: option.splits)
  then show ?thesis by (simp add: validPayload_def split: prod.splits)
qed

lemma http_Error_json [simp]:
  "http_Error (env\<lparr>json_Unmarshal := j\<rparr>) msg c s = http_Error env msg c s"
  by (simp add: http_Error_def Write_def)

lemma ChatCompletion_rejected:
  assumes "validPayload env (fst (Body r)) (Header_Get (Header r) ''X-Github-Public-Key-Signature'')
             (pubKey (service s)) = Returns (valid, err)"
    and "\<not> (valid \<and> err = None)"
  shows "ChatCompletion env r s =
           Some (if snd (Body r) \<noteq> None \<or> err \<noteq> None then WriteHeader StatusInternalServerError s
                 else http_Error env ''invalid payload signature'' StatusUnauthorized s)"
  using assms by (cases "Body r") (auto simp: ChatCompletion_def split: option.splits)

lemma ChatCompletion_panics:
  assumes "validPayload env (fst (Body r)) (Header_Get (Header r) ''X-Github-Public-Key-Signature'')
             (pubKey (service s)) = Panics"
  shows "ChatCompletion env r s =
           Some (if snd (Body r) \<noteq> None then WriteHeader StatusInternalServerError s else s)"
  using assms by (cases "Body r") (auto simp: ChatCompletion_def split: option.splits)

subsection \<open>The example collaborators\<close>

lemma example_env_simps [simp]:
  "base64_DecodeString example_env ''MAYCAQECAQE='' = (der_sig, None)"
  "base64_DecodeString example_env ''MAYCAQECAQEA'' = (der_sig @ [CHR 0x00], None)"
  "base64_DecodeString example_env '''' = ([], None)"
  "base64_DecodeString example_env ''not base64!'' =
     ([], Some (ErrorString ''illegal base64 data at input byte 0''))"
  "asn1_Unmarshal example_env der_sig = ([], \<lparr>R = 1, S = 1\<rparr>, None)"
  "asn1_Unmarshal example_env (der_sig @ [CHR 0x00]) = ([CHR 0x00], \<lparr>R = 1, S = 1\<rparr>, None)"
  "asn1_Unmarshal example_env [] =
     ([], \<lparr>R = 0, S = 0\<rparr>, Some (ErrorString ''asn1: syntax error: sequence truncated''))"
  "ecdsa_Verify example_env 7 (sha256_Sum256 example_env example_body) 1 1 = True"
  "ecdsa_Verify example_env 7 (sha256_Sum256 example_env ''tampered'') 1 1 = False"
  "w_Write example_env k p = (length p, None)"
  by (simp_all add: example_env_def der_sig_def example_body_def js_def)

lemma example_env_calls [simp]:
  "json_Unmarshal example_env example_body = (Some example_request, None)"
  "os_ReadDir example_env dir = ([''batch.md''], None)"
  "embedding_GenerateDatasets example_env integrationID apiToken filenames =
     (map (\<lambda>f. \<lparr>Filename = f, Embedding = length f\<rparr>) filenames, None)"
  "embedding_Create example_env integrationID apiToken content = (length content, None)"
  "embedding_FindBestDataset example_env ds emb = (case ds of [] \<Rightarrow> None | d # _ \<Rightarrow> Some d, None)"
  "os_Open example_env name = (3, None)"
  "io_ReadAll example_env file = (''# Batch Job Template'', None)"
  "copilot_ChatCompletions example_env integrationID apiToken chatReq =
     (Scanner_of [''data: hello'', ''data: [DONE]''] None, None)"
  by (simp_all add: example_env_def)

lemma example_env_broken_pipe_simps [simp]:
  "w_Write example_env_broken_pipe k p =
     (if k = 2 then (3, Some (ErrorString ''broken pipe'')) else (length p, None))"
  by (simp add: example_env_broken_pipe_def)

lemma example_headers_simps [simp]:
  "Header_Get (example_headers sig) ''X-Github-Public-Key-Signature'' = sig"
  "Header_Get (example_headers sig) ''X-GitHub-Token'' = ''token''"
  "Header_Get (example_headers sig) ''Copilot-Integration-Id'' = ''42''"
  by (simp_all add: example_headers_def Header_Get_def)

lemma new_world_simps [simp]:
  "pubKey (service (new_world k)) = Some k" "datasets (service (new_world k)) = []"
  "datasetsInit (service (new_world k)) = False" "calls (new_world k) = []"
  "wroteHeader (new_world k) = None" "written (new_world k) = []" "nwrites (new_world k) = 0"
  by (simp_all add: new_world_def NewService_def)

subsection \<open>The example run\<close>

lemma example_most_recent [simp]:
  "most_recent_user_message (Messages example_request) = Some \<lparr>Role = ''user'', Content = ''c''\<rparr>"
  by (simp add: most_recent_user_message_def example_request_def)

lemma example_init:
  "datasetsInit_Do example_env ''42'' ''token'' (new_world 7) =
     (None,
      \<lparr>service = \<lparr>pubKey = Some 7, datasets = [\<lparr>Filename = ''data/batch.md'', Embedding = 13\<rparr>],
                   datasetsInit = True\<rparr>,
       calls = [Call_ReadDir ''data'', Call_GenerateDatasets ''42'' ''token'' [''data/batch.md'']],
       wroteHeader = None, written = [], nwrites = 0\<rparr>)"
  by (simp add: datasetsInit_Do_def example_env_def new_world_def NewService_def log_call_def
      filepath_Join_def)

lemma example_no_data_init:
  "datasetsInit_Do example_env_no_data ''42'' ''token'' (new_world 7) =
     (Some (Wrap (''error reading files from '' @ [CHR 0x22] @ ''data'' @ [CHR 0x22] @ '' directory'')
              (ErrorString ''open data: no such file or directory'')),
      \<lparr>service = \<lparr>pubKey = Some 7, datasets = [], datasetsInit = True\<rparr>,
       calls = [Call_ReadDir ''data''],
       wroteHeader = None, written = [], nwrites = 0\<rparr>)"
  by (simp add: datasetsInit_Do_def example_env_no_data_def example_env_def new_world_def
      NewService_def log_call_def)

subsection \<open>The ensure-step\<close>

lemma datasetsInit_Do_error_first:
  assumes "datasetsInit_Do env i t s = (Some err, s1)"
  shows "\<not> datasetsInit (service s) \<and> datasetsInit (service s1)"
proof -
  have "\<not> datasetsInit (service s)" using assms by (auto simp: datasetsInit_Do_def)
  moreover have "datasetsInit (service s1)" using datasetsInit_Do_sets_done[of env i t s] assms by simp
  ultimately show ?thesis by simp
qed

lemma datasetsInit_Do_counts:
  "\<not> datasetsInit (service s) \<Longrightarrow>
   enumerations (calls (snd (datasetsInit_Do env i t s))) = Suc (enumerations (calls s)) \<and>
   generations (calls (snd (datasetsInit_Do env i t s))) \<le> Suc (generations (calls s))"
  by (simp add: datasetsInit_Do_def Let_def split: prod.splits option.splits)

lemma ensure_callers_done:
  "datasetsInit (service s) \<Longrightarrow> ensure_callers cs s = (map (\<lambda>c. None) cs, s)"
  by (induction cs) (auto simp: datasetsInit_Do_done)

lemma ensure_callers_first:
  "ensure_callers ((env, i, t) # cs) s =
     (fst (datasetsInit_Do env i t s) # map (\<lambda>c. None) cs, snd (datasetsInit_Do env i t s))"
proof (cases "datasetsInit_Do env i t s")
  case (Pair e s1)
  have "datasetsInit (service s1)" using datasetsInit_Do_sets_done[of env i t s] Pair by simp
  from ensure_callers_done[OF this, of cs] Pair show ?thesis by simp
qed

text \<open>Callers one after the other run the build once: one enumeration of the directory
  and at most one generation of datasets (none when the enumeration fails).\<close>

lemma ensure_callers_build_once:
  assumes "\<not> datasetsInit (service s)" and "cs \<noteq> []"
  shows "enumerations (calls (snd (ensure_callers cs s))) = Suc (enumerations (calls s)) \<and>
         generations (calls (snd (ensure_callers cs s))) \<le> Suc (generations (calls s))"
proof (cases cs)
  case Nil
  with assms show ?thesis by simp
next
  case (Cons c cs')
  obtain env i t where c: "c = (env, i, t)" by (cases c)
  show ?thesis unfolding Cons c ensure_callers_first snd_conv
    by (rule datasetsInit_Do_counts[OF assms(1)])
qed

text \<open>The request after a failed build, with collaborators that work: it returns
  \<^verbatim>\<open>nil\<close>, having looked for the best dataset among none and forwarded the conversation
  without context.\<close>

lemma example_second_request:
  "generateCompletion example_env ''42'' ''token'' (Some example_request)
     (next_response (snd (datasetsInit_Do example_env_no_data ''42'' ''token'' (new_world 7)))) =
   Some (Return None,
     \<lparr>service = \<lparr>pubKey = Some 7, datasets = [], datasetsInit = True\<rparr>,
      calls = [Call_ReadDir ''data'', Call_Create ''42'' ''token'' ''c'', Call_FindBestDataset [] 1,
               Call_ChatCompletions ''copilot-chat'' ''token''
                 \<lparr>cc_Messages = Messages example_request, cc_Model = ModelGPT4o, cc_Stream = True\<rparr>],
      wroteHeader = Some 200, written = ''data: hello'' @ nl @ ''data: [DONE]'' @ nl, nwrites = 4\<rparr>)"
  by (simp add: generateCompletion_def open_stream_def example_no_data_init next_response_def
      datasetsInit_Do_done messages_loop_most_recent load_context_def example_env_def
      relay_token relay_end Write_def WriteHeader_def log_call_def normal_end_def Let_def)

text \<open>Runs with the example collaborators: a write that fails at the third call of
  \<^verbatim>\<open>Write\<close> after three bytes, a downstream whose read fails, and a request with a valid
  signature from the handler on.\<close>

lemma example_relay_broken_pipe:
  "map_option (\<lambda>(r, s'). (r, written s'))
     (relay (example_env\<lparr>w_Write := (\<lambda>k p. if k = 2 then (3, Some (ErrorString ''broken pipe''))
                                           else (length p, None))\<rparr>)
        (Scanner_of [''data: hello'', ''data: [DONE]''] None) (new_world 7))
   = Some (Some (Wrap ''failed to write to stream'' (ErrorString ''broken pipe'')),
           ''data: hello'' @ nl @ ''dat'')"
  by (simp add: relay_token relay_end Write_def WriteHeader_def new_world_def)

lemma example_relay_read_failure:
  "map_option (\<lambda>(r, s'). (r, written s'))
     (relay example_env (Scanner_of [''data: hello''] (Some (ErrorString ''unexpected EOF''))) (new_world 7))
   = Some (Some (Wrap ''failed to read from stream'' (ErrorString ''unexpected EOF'')),
           ''data: hello'' @ nl)"
  by (simp add: relay_token relay_end Write_def WriteHeader_def new_world_def normal_end_def)

lemma example_handler_run:
  "ChatCompletion example_env
     \<lparr>Header = example_headers ''MAYCAQECAQE='', Body = (example_body, None)\<rparr> (new_world 7) =
   Some \<lparr>service = \<lparr>pubKey = Some 7, datasets = [\<lparr>Filename = ''data/batch.md'', Embedding = 13\<rparr>],
                      datasetsInit = True\<rparr>,
          calls = [Call_ReadDir ''data'', Call_GenerateDatasets ''42'' ''token'' [''data/batch.md''],
                   Call_Create ''42'' ''token'' ''c'',
                   Call_FindBestDataset [\<lparr>Filename = ''data/batch.md'', Embedding = 13\<rparr>] 1,
                   Call_Open ''data/batch.md'', Call_ReadAll 3,
                   Call_ChatCompletions ''copilot-chat'' ''token''
                     \<lparr>cc_Messages = system_message ''# Batch Job Template'' # Messages example_request,
                      cc_Model = ModelGPT4o, cc_Stream = True\<rparr>],
          wroteHeader = Some 200, written = ''data: hello'' @ nl @ ''data: [DONE]'' @ nl, nwrites = 4\<rparr>"
proof -
  have v: "validPayload example_env example_body ''MAYCAQECAQE='' (Some 7) = Returns (True, None)"
    by (simp add: validPayload_verify[of _ _ der_sig "\<lparr>R = 1, S = 1\<rparr>"])
  have j: "json_Unmarshal example_env example_body = (Some example_request, None)"
    by simp
  have g: "generateCompletion example_env ''42'' ''token'' (Some example_request) (new_world 7) =
    Some (Return None,
       \<lparr>service = \<lparr>pubKey = Some 7, datasets = [\<lparr>Filename = ''data/batch.md'', Embedding = 13\<rparr>],
                      datasetsInit = True\<rparr>,
          calls = [Call_ReadDir ''data'', Call_GenerateDatasets ''42'' ''token'' [''data/batch.md''],
                   Call_Create ''42'' ''token'' ''c'',
                   Call_FindBestDataset [\<lparr>Filename = ''data/batch.md'', Embedding = 13\<rparr>] 1,
                   Call_Open ''data/batch.md'', Call_ReadAll 3,
                   Call_ChatCompletions ''copilot-chat'' ''token''
                     \<lparr>cc_Messages = system_message ''# Batch Job Template'' # Messages example_request,
                      cc_Model = ModelGPT4o, cc_Stream = True\<rparr>],
          wroteHeader = Some 200, written = ''data: hello'' @ nl @ ''data: [DONE]'' @ nl, nwrites = 4\<rparr>)"
    by (simp add: generateCompletion_def open_stream_def example_init messages_loop_most_recent
        load_context_def system_message_def
        relay_token relay_end Write_def WriteHeader_def log_call_def normal_end_def Let_def)
  show ?thesis
    by (simp add: ChatCompletion_def v j g)
qed

section \<open>The claims\<close>

text \<open>
  C1: the specification has a failed build returned as an error to every caller of the
  ensure-step, later requests included. The code returns it to the caller that ran the
  build only: \<^verbatim>\<open>err\<close> is a local variable of \<^verbatim>\<open>generateCompletion\<close>, and on a later
  call \<^verbatim>\<open>Do\<close> does not run the function that assigns it. After a call of the
  ensure-step that returned an error, every call of it, in whatever state holds the
  same service, returns \<^verbatim>\<open>nil\<close> and leaves the state as it is.
\<close>

theorem build_failure_lost_for_later_callers:
  assumes "datasetsInit_Do env integrationID apiToken s = (Some err, s1)"
    and "service s2 = service s1"
  shows "datasetsInit_Do env' integrationID' apiToken' s2 = (None, s2)"
  using datasetsInit_Do_error_first[OF assms(1)] assms(2) by (simp add: datasetsInit_Do_done)

theorem build_failure_lost_for_later_callers_witness:
  "fst (datasetsInit_Do example_env_no_data ''42'' ''token'' (new_world 7)) =
     Some (Wrap (''error reading files from '' @ [CHR 0x22] @ ''data'' @ [CHR 0x22] @ '' directory'')
             (ErrorString ''open data: no such file or directory'')) \<and>
   fst (datasetsInit_Do example_env ''42'' ''token''
          (next_response (snd (datasetsInit_Do example_env_no_data ''42'' ''token'' (new_world 7))))) = None \<and>
   map_option fst
     (generateCompletion example_env ''42'' ''token'' (Some example_request)
        (next_response (snd (datasetsInit_Do example_env_no_data ''42'' ''token'' (new_world 7))))) =
     Some (Return None)"
proof -
  have s: "service (next_response (snd (datasetsInit_Do example_env_no_data ''42'' ''token'' (new_world 7))))
             = service (snd (datasetsInit_Do example_env_no_data ''42'' ''token'' (new_world 7)))"
    by (simp add: next_response_def)
  have i: "datasetsInit_Do example_env_no_data ''42'' ''token'' (new_world 7) =
             (Some (Wrap (''error reading files from '' @ [CHR 0x22] @ ''data'' @ [CHR 0x22] @ '' directory'')
                      (ErrorString ''open data: no such file or directory'')),
              snd (datasetsInit_Do example_env_no_data ''42'' ''token'' (new_world 7)))"
    by (simp add: example_no_data_init)
  have l: "datasetsInit_Do example_env ''42'' ''token''
          (next_response (snd (datasetsInit_Do example_env_no_data ''42'' ''token'' (new_world 7)))) =
          (None, next_response (snd (datasetsInit_Do example_env_no_data ''42'' ''token'' (new_world 7))))"
    by (rule build_failure_lost_for_later_callers[OF i s])
  show ?thesis
    by (simp only: l example_second_request) (simp add: example_no_data_init)
qed

text \<open>
  C2: a signature that is not base64, or whose bytes are not the ASN.1 structure, makes
  \<^verbatim>\<open>validPayload\<close> return a non-nil error (\<open>validPayload_base64_error\<close>,
  \<open>validPayload_asn1_error\<close>). For trailing bytes the code does otherwise: when the
  structure decodes and bytes are left over, the test \<^verbatim>\<open>err != nil || len(rest) != 0\<close>
  holds with \<^verbatim>\<open>err == nil\<close>, and \<^verbatim>\<open>return false, err\<close> returns false with a
  \<^verbatim>\<open>nil\<close> error.
\<close>

theorem validPayload_trailing_bytes:
  assumes "base64_DecodeString env sig = (asnSig, None)"
    and "asn1_Unmarshal env asnSig = (rest, parsedSig, None)"
    and "rest \<noteq> []"
  shows "validPayload env data sig publicKey = Returns (False, None)"
  using assms by (simp add: validPayload_def)

theorem validPayload_trailing_bytes_witness:
  "validPayload example_env example_body ''MAYCAQECAQEA'' (Some 7) = Returns (False, None)"
  by (rule validPayload_trailing_bytes[of _ _ "der_sig @ [CHR 0x00]" "[CHR 0x00]" "\<lparr>R = 1, S = 1\<rparr>"])
     simp_all

text \<open>
  C3, as amended: when the body was read and \<^verbatim>\<open>validPayload\<close> does not return true
  without error, the handler returns without calling a collaborator and without
  changing the service, and the status differs by case: 401 (unauthorized) when
  \<^verbatim>\<open>validPayload\<close> returns false without error, 500 (internal server error) when it
  returns an error.
\<close>

theorem ChatCompletion_signature_status:
  assumes "Body r = (body, None)"
    and "validPayload env body (Header_Get (Header r) ''X-Github-Public-Key-Signature'')
           (pubKey (service s)) = Returns (valid, err)"
    and "\<not> (valid \<and> err = None)"
    and "wroteHeader s = None"
  shows "\<exists>s'. ChatCompletion env r s = Some s' \<and> calls s' = calls s \<and> service s' = service s \<and>
           wroteHeader s' = Some (if err = None then StatusUnauthorized else StatusInternalServerError)"
  using assms ChatCompletion_rejected[of env r s valid err]
  by (auto simp: wroteHeader_WriteHeader wroteHeader_http_Error)

theorem ChatCompletion_signature_status_witness:
  "map_option wroteHeader
     (ChatCompletion example_env
        \<lparr>Header = example_headers ''MAYCAQECAQE='', Body = (''tampered'', None)\<rparr> (new_world 7))
   = Some (Some StatusUnauthorized)"
proof -
  have v: "validPayload example_env ''tampered''
             (Header_Get (Header \<lparr>Header = example_headers ''MAYCAQECAQE='', Body = (''tampered'', None)\<rparr>)
                ''X-Github-Public-Key-Signature'')
             (pubKey (service (new_world 7 :: (nat, nat) world))) = Returns (False, None)"
    by (simp add: validPayload_verify[of _ _ der_sig "\<lparr>R = 1, S = 1\<rparr>"])
  from ChatCompletion_signature_status[OF _ v] show ?thesis by auto
qed

text \<open>
  C3 as stated fails: a signature that is not base64 is malformed, and the handler
  answers it with status 500, not with 401.
\<close>

theorem malformed_signature_internal_error:
  "validPayload example_env example_body ''not base64!'' (Some 7) =
     Returns (False, Some (ErrorString ''illegal base64 data at input byte 0'')) \<and>
   map_option wroteHeader
     (ChatCompletion example_env
        \<lparr>Header = example_headers ''not base64!'', Body = (example_body, None)\<rparr> (new_world 7))
     = Some (Some StatusInternalServerError) \<and>
   StatusInternalServerError \<noteq> StatusUnauthorized"
proof -
  have v: "validPayload example_env example_body ''not base64!'' (Some 7) =
             Returns (False, Some (ErrorString ''illegal base64 data at input byte 0''))"
    by (simp add: validPayload_base64_error[of _ _ "[]"])
  then show ?thesis
    by (simp add: ChatCompletion_def wroteHeader_WriteHeader StatusInternalServerError_def
        StatusUnauthorized_def)
qed

text \<open>
  C4: the texts given to \<^verbatim>\<open>embedding.Create\<close> while a request is handled are, when the
  ensure-step returns no error, the content of the most recent message with role
  "user" and non-empty content and nothing else (nothing when there is no such
  message), and nothing when the ensure-step fails. The relay creates no embedding, so
  the same holds when \<^verbatim>\<open>generateCompletion\<close> returns.
\<close>

theorem retrieval_embeds_most_recent_user_message:
  "created (calls (snd (open_stream env integrationID apiToken (Some req) s))) =
     created (calls s) @
       (if fst (datasetsInit_Do env integrationID apiToken s) = None
        then (case most_recent_user_message (Messages req) of None \<Rightarrow> [] | Some m \<Rightarrow> [Content m])
        else []) \<and>
   (\<forall>out s'. generateCompletion env integrationID apiToken (Some req) s = Some (out, s') \<longrightarrow>
      created (calls s') =
        created (calls s) @
          (if fst (datasetsInit_Do env integrationID apiToken s) = None
           then (case most_recent_user_message (Messages req) of None \<Rightarrow> [] | Some m \<Rightarrow> [Content m])
           else []))"
proof (intro conjI allI impI)
  show "created (calls (snd (open_stream env integrationID apiToken (Some req) s))) =
     created (calls s) @
       (if fst (datasetsInit_Do env integrationID apiToken s) = None
        then (case most_recent_user_message (Messages req) of None \<Rightarrow> [] | Some m \<Rightarrow> [Content m])
        else [])"
    by (rule open_stream_created)
next
  fix out s'
  assume g: "generateCompletion env integrationID apiToken (Some req) s = Some (out, s')"
  from generateCompletion_calls[OF g]
  have "calls s' = calls (snd (open_stream env integrationID apiToken (Some req) s))" by (rule conjunct1)
  then show "created (calls s') =
        created (calls s) @
          (if fst (datasetsInit_Do env integrationID apiToken s) = None
           then (case most_recent_user_message (Messages req) of None \<Rightarrow> [] | Some m \<Rightarrow> [Content m])
           else [])"
    by (simp only: open_stream_created)
qed

theorem retrieval_embeds_most_recent_user_message_witness:
  "created (calls (snd (open_stream example_env ''42'' ''token'' (Some example_request) (new_world 7))))
     = [''c'']"
proof -
  have i: "fst (datasetsInit_Do example_env ''42'' ''token'' (new_world 7)) = None"
    by (simp add: example_init)
  from retrieval_embeds_most_recent_user_message[of example_env "''42''" "''token''" example_request
      "new_world 7", THEN conjunct1]
  show ?thesis by (simp only: i example_most_recent new_world_simps) simp
qed

text \<open>
  C5: when the ensure-step returns no error, the embedding of the most recent user
  message is created, a dataset is selected for it and its file is opened and read,
  the request given to the completion service holds one synthesized system message
  (the fixed preamble \<open>lPrePrompt\<close>, the label \<^verbatim>\<open>Context: \<close> and the content of the file)
  followed by the original messages in their order. It is the only request forwarded,
  also when \<^verbatim>\<open>generateCompletion\<close> returns. In every run the messages put before the
  original ones are at most one such system message (\<open>open_stream_forwarded\<close>).
\<close>

theorem selected_dataset_one_system_message:
  assumes "datasetsInit_Do env integrationID apiToken s = (None, s1)"
    and "most_recent_user_message (Messages req) = Some m"
    and "embedding_Create env integrationID apiToken (Content m) = (emb, None)"
    and "embedding_FindBestDataset env (datasets (service s1)) emb = (Some dataset, None)"
    and "os_Open env (Filename dataset) = (file, None)"
    and "io_ReadAll env file = (fileContents, None)"
  shows "forwarded (calls (snd (open_stream env integrationID apiToken (Some req) s))) =
           forwarded (calls s) @
             [\<lparr>cc_Messages = system_message fileContents # Messages req,
               cc_Model = ModelGPT4o, cc_Stream = True\<rparr>] \<and>
         (\<forall>out s'. generateCompletion env integrationID apiToken (Some req) s = Some (out, s') \<longrightarrow>
            forwarded (calls s') =
              forwarded (calls s) @
                [\<lparr>cc_Messages = system_message fileContents # Messages req,
                  cc_Model = ModelGPT4o, cc_Stream = True\<rparr>])"
proof (intro conjI allI impI)
  show f: "forwarded (calls (snd (open_stream env integrationID apiToken (Some req) s))) =
           forwarded (calls s) @
             [\<lparr>cc_Messages = system_message fileContents # Messages req,
               cc_Model = ModelGPT4o, cc_Stream = True\<rparr>]"
    by (rule open_stream_selected[OF assms])
  fix out s'
  assume g: "generateCompletion env integrationID apiToken (Some req) s = Some (out, s')"
  from generateCompletion_calls[OF g]
  have "calls s' = calls (snd (open_stream env integrationID apiToken (Some req) s))"
    by (rule conjunct1)
  then show "forwarded (calls s') =
              forwarded (calls s) @
                [\<lparr>cc_Messages = system_message fileContents # Messages req,
                  cc_Model = ModelGPT4o, cc_Stream = True\<rparr>]"
    by (simp only: f)
qed

theorem selected_dataset_one_system_message_witness:
  "forwarded (calls (snd (open_stream example_env ''42'' ''token'' (Some example_request) (new_world 7))))
     = [\<lparr>cc_Messages = system_message ''# Batch Job Template'' # Messages example_request,
         cc_Model = ModelGPT4o, cc_Stream = True\<rparr>]"
proof -
  have c: "embedding_Create example_env ''42'' ''token'' (Content \<lparr>Role = ''user'', Content = ''c''\<rparr>)
             = (1, None)"
    by (simp add: example_env_def)
  have f: "embedding_FindBestDataset example_env
             (datasets (service
                \<lparr>service = \<lparr>pubKey = Some 7, datasets = [\<lparr>Filename = ''data/batch.md'', Embedding = 13\<rparr>],
                             datasetsInit = True\<rparr>,
                 calls = [Call_ReadDir ''data'', Call_GenerateDatasets ''42'' ''token'' [''data/batch.md'']],
                 wroteHeader = None, written = [], nwrites = 0\<rparr>)) 1
             = (Some \<lparr>Filename = ''data/batch.md'', Embedding = 13\<rparr>, None)"
    by (simp add: example_env_def)
  have o: "os_Open example_env (Filename \<lparr>Filename = ''data/batch.md'', Embedding = 13::nat\<rparr>) = (3, None)"
    by (simp add: example_env_def)
  have r: "io_ReadAll example_env 3 = (''# Batch Job Template'', None)"
    by (simp add: example_env_def)
  from selected_dataset_one_system_message[OF example_init example_most_recent c f o r, THEN conjunct1]
  show ?thesis by (simp only: new_world_simps forwarded.simps append_Nil)
qed

text \<open>
  C6: on a downstream that yields the units \<open>us\<close> and then ends, the relay returns, and
  what it has written and what it returns are these. When every write succeeds, the
  bytes added to the response are all the units, each followed by one newline, in
  their order, and the result is \<^verbatim>\<open>nil\<close> when the downstream ended normally and the
  read error otherwise, after all that was written. When write number \<open>j\<close> is the first
  that fails, having accepted \<open>n\<close> bytes, the bytes added are the buffers of the writes
  before it and the first \<open>n\<close> bytes of its buffer, and the result is the write error:
  nothing written is taken back. One of the two cases always holds.
\<close>

theorem relay_units_with_newlines:
  "\<exists>r s' x y. relay env (Scanner_of us e) s = Some (r, s') \<and>
      written s' = written s @ x \<and>
      concat (map (\<lambda>u. u @ nl) us) = x @ y \<and>
      (r = None \<longleftrightarrow> writes_ok env (nwrites s) (framed us) \<and> normal_end e) \<and>
      (r = None \<longrightarrow> y = []) \<and>
      (writes_ok env (nwrites s) (framed us) \<longrightarrow>
         x = concat (map (\<lambda>u. u @ nl) us) \<and>
         r = (case e of None \<Rightarrow> None
              | Some err \<Rightarrow> if errors_Is err EOF then None
                            else Some (Wrap ''failed to read from stream'' err))) \<and>
      (\<forall>j n err. j < length (framed us) \<and> writes_ok env (nwrites s) (take j (framed us)) \<and>
                 w_Write env (nwrites s + j) (framed us ! j) = (n, Some err) \<longrightarrow>
         x = concat (take j (framed us)) @ take n (framed us ! j) \<and>
         r = Some (Wrap (if even j then ''failed to write to stream''
                         else ''failed to write delimiter to stream'') err)) \<and>
      (writes_ok env (nwrites s) (framed us) \<or>
       (\<exists>j n err. j < length (framed us) \<and> writes_ok env (nwrites s) (take j (framed us)) \<and>
                  w_Write env (nwrites s + j) (framed us ! j) = (n, Some err)))"
proof -
  have c: "concat (framed us) = concat (map (\<lambda>u. u @ nl) us)"
    by (induction us) simp_all
  from relay_finite[of env us e s] obtain r s' x y where
    f: "relay env (Scanner_of us e) s = Some (r, s')" "written s' = written s @ x"
       "concat (framed us) = x @ y"
       "r = None \<longleftrightarrow> writes_ok env (nwrites s) (framed us) \<and> normal_end e"
       "r = None \<longrightarrow> y = []"
    by blast
  have ok: "writes_ok env (nwrites s) (framed us) \<longrightarrow>
         x = concat (map (\<lambda>u. u @ nl) us) \<and>
         r = (case e of None \<Rightarrow> None
              | Some err \<Rightarrow> if errors_Is err EOF then None
                            else Some (Wrap ''failed to read from stream'' err))"
  proof
    assume w: "writes_ok env (nwrites s) (framed us)"
    from relay_writes_ok[OF w, of e] obtain s'' where
      g: "relay env (Scanner_of us e) s =
            Some (if normal_end e then None else Some (Wrap ''failed to read from stream'' (the e)), s'')"
         "written s'' = written s @ concat (framed us)"
      by blast
    from f(1) g(1) have "s'' = s'"
      and r: "r = (if normal_end e then None else Some (Wrap ''failed to read from stream'' (the e)))"
      by simp_all
    with f(2) g(2) c have "x = concat (map (\<lambda>u. u @ nl) us)" by simp
    moreover have "r = (case e of None \<Rightarrow> None
              | Some err \<Rightarrow> if errors_Is err EOF then None
                            else Some (Wrap ''failed to read from stream'' err))"
      using r by (simp add: normal_end_def split: option.splits)
    ultimately show "x = concat (map (\<lambda>u. u @ nl) us) \<and>
         r = (case e of None \<Rightarrow> None
              | Some err \<Rightarrow> if errors_Is err EOF then None
                            else Some (Wrap ''failed to read from stream'' err))"
      by (rule conjI)
  qed
  have bad: "\<forall>j n err. j < length (framed us) \<and> writes_ok env (nwrites s) (take j (framed us)) \<and>
                 w_Write env (nwrites s + j) (framed us ! j) = (n, Some err) \<longrightarrow>
         x = concat (take j (framed us)) @ take n (framed us ! j) \<and>
         r = Some (Wrap (if even j then ''failed to write to stream''
                         else ''failed to write delimiter to stream'') err)"
  proof (intro allI impI)
    fix j n err
    assume a: "j < length (framed us) \<and> writes_ok env (nwrites s) (take j (framed us)) \<and>
                 w_Write env (nwrites s + j) (framed us ! j) = (n, Some err)"
    then have a1: "j < length (framed us)" and a2: "writes_ok env (nwrites s) (take j (framed us))"
      and a3: "w_Write env (nwrites s + j) (framed us ! j) = (n, Some err)" by simp_all
    from relay_write_failure[OF a1 a2 a3, of e] obtain s'' where
      g: "relay env (Scanner_of us e) s =
           Some (Some (Wrap (if even j then ''failed to write to stream''
                             else ''failed to write delimiter to stream'') err), s'')"
         "written s'' = written s @ concat (take j (framed us)) @ take n (framed us ! j)"
      by blast
    from f(1) g(1) have "s'' = s'"
      and r: "r = Some (Wrap (if even j then ''failed to write to stream''
                             else ''failed to write delimiter to stream'') err)"
      by simp_all
    with f(2) g(2) have "x = concat (take j (framed us)) @ take n (framed us ! j)" by simp
    with r show "x = concat (take j (framed us)) @ take n (framed us ! j) \<and>
         r = Some (Wrap (if even j then ''failed to write to stream''
                         else ''failed to write delimiter to stream'') err)"
      by (rule conjI[rotated])
  qed
  note ex = writes_ok_or_first_failure[of env "nwrites s" "framed us"]
  from f(1) f(2) f(3)[unfolded c] f(4) f(5) ok bad ex show ?thesis by blast
qed

theorem relay_units_with_newlines_witness:
  "map_option (\<lambda>(r, s'). (r, written s'))
     (relay example_env (Scanner_of [''data: hello'', ''data: [DONE]''] None) (new_world 7))
   = Some (None, ''data: hello'' @ nl @ ''data: [DONE]'' @ nl) \<and>
   map_option (\<lambda>(r, s'). (r, written s'))
     (relay example_env_broken_pipe (Scanner_of [''data: hello'', ''data: [DONE]''] None) (new_world 7))
   = Some (Some (Wrap ''failed to write to stream'' (ErrorString ''broken pipe'')),
           ''data: hello'' @ nl @ ''dat'') \<and>
   map_option (\<lambda>(r, s'). (r, written s'))
     (relay example_env (Scanner_of [''data: hello''] (Some (ErrorString ''unexpected EOF''))) (new_world 7))
   = Some (Some (Wrap ''failed to read from stream'' (ErrorString ''unexpected EOF'')),
           ''data: hello'' @ nl)"
proof (intro conjI)
  have w: "writes_ok example_env (nwrites (new_world 7 :: (nat, nat) world))
             (framed [''data: hello'', ''data: [DONE]''])"
    by simp
  have n: "normal_end None" by (simp add: normal_end_def)
  from relay_units_with_newlines[of example_env "[''data: hello'', ''data: [DONE]'']" None "new_world 7"]
  obtain r s' x where
    "relay example_env (Scanner_of [''data: hello'', ''data: [DONE]''] None) (new_world 7) = Some (r, s')"
    "written s' = written (new_world 7 :: (nat, nat) world) @ x"
    "writes_ok example_env (nwrites (new_world 7 :: (nat, nat) world))
        (framed [''data: hello'', ''data: [DONE]'']) \<longrightarrow>
       x = concat (map (\<lambda>u. u @ nl) [''data: hello'', ''data: [DONE]'']) \<and>
       r = (case None of None \<Rightarrow> None
            | Some err \<Rightarrow> if errors_Is err EOF then None
                          else Some (Wrap ''failed to read from stream'' err))"
    by blast
  with w show "map_option (\<lambda>(r, s'). (r, written s'))
     (relay example_env (Scanner_of [''data: hello'', ''data: [DONE]''] None) (new_world 7))
   = Some (None, ''data: hello'' @ nl @ ''data: [DONE]'' @ nl)"
    by simp
next
  have j: "2 < length (framed [''data: hello'', ''data: [DONE]''])" by simp
  have w: "writes_ok example_env_broken_pipe (nwrites (new_world 7 :: (nat, nat) world))
             (take 2 (framed [''data: hello'', ''data: [DONE]'']))"
    by simp
  have f: "w_Write example_env_broken_pipe (nwrites (new_world 7 :: (nat, nat) world) + 2)
             (framed [''data: hello'', ''data: [DONE]''] ! 2) = (3, Some (ErrorString ''broken pipe''))"
    by simp
  from relay_units_with_newlines[of example_env_broken_pipe "[''data: hello'', ''data: [DONE]'']" None
      "new_world 7"]
  obtain r s' x where
    "relay example_env_broken_pipe (Scanner_of [''data: hello'', ''data: [DONE]''] None) (new_world 7)
       = Some (r, s')"
    "written s' = written (new_world 7 :: (nat, nat) world) @ x"
    "\<forall>j n err. j < length (framed [''data: hello'', ''data: [DONE]'']) \<and>
         writes_ok example_env_broken_pipe (nwrites (new_world 7 :: (nat, nat) world))
           (take j (framed [''data: hello'', ''data: [DONE]''])) \<and>
         w_Write example_env_broken_pipe (nwrites (new_world 7 :: (nat, nat) world) + j)
           (framed [''data: hello'', ''data: [DONE]''] ! j) = (n, Some err) \<longrightarrow>
         x = concat (take j (framed [''data: hello'', ''data: [DONE]''])) @
               take n (framed [''data: hello'', ''data: [DONE]''] ! j) \<and>
         r = Some (Wrap (if even j then ''failed to write to stream''
                         else ''failed to write delimiter to stream'') err)"
    by blast
  from this(1,2) this(3)[rule_format, OF conjI[OF j conjI[OF w f]]]
  show "map_option (\<lambda>(r, s'). (r, written s'))
     (relay example_env_broken_pipe (Scanner_of [''data: hello'', ''data: [DONE]''] None) (new_world 7))
   = Some (Some (Wrap ''failed to write to stream'' (ErrorString ''broken pipe'')),
           ''data: hello'' @ nl @ ''dat'')"
    by simp
next
  have w: "writes_ok example_env (nwrites (new_world 7 :: (nat, nat) world)) (framed [''data: hello''])"
    by simp
  from relay_units_with_newlines[of example_env "[''data: hello'']"
      "Some (ErrorString ''unexpected EOF'')" "new_world 7"]
  obtain r s' x where
    "relay example_env (Scanner_of [''data: hello''] (Some (ErrorString ''unexpected EOF''))) (new_world 7)
       = Some (r, s')"
    "written s' = written (new_world 7 :: (nat, nat) world) @ x"
    "writes_ok example_env (nwrites (new_world 7 :: (nat, nat) world)) (framed [''data: hello'']) \<longrightarrow>
       x = concat (map (\<lambda>u. u @ nl) [''data: hello'']) \<and>
       r = (case Some (ErrorString ''unexpected EOF'') of None \<Rightarrow> None
            | Some err \<Rightarrow> if errors_Is err EOF then None
                          else Some (Wrap ''failed to read from stream'' err))"
    by blast
  with w show "map_option (\<lambda>(r, s'). (r, written s'))
     (relay example_env (Scanner_of [''data: hello''] (Some (ErrorString ''unexpected EOF''))) (new_world 7))
   = Some (Some (Wrap ''failed to read from stream'' (ErrorString ''unexpected EOF'')),
           ''data: hello'' @ nl)"
    by simp
qed

text \<open>
  C7: when \<^verbatim>\<open>validPayload\<close> does not return true without error, the handler ends
  with the record of calls and the service as they were: no embedding is created, no
  dataset is generated, the completion service is not called. The result is the same
  whatever \<^verbatim>\<open>json.Unmarshal\<close> would make of the body: the body is not parsed.
\<close>

theorem ChatCompletion_invalid_signature_no_calls:
  assumes "validPayload env (fst (Body r)) (Header_Get (Header r) ''X-Github-Public-Key-Signature'')
             (pubKey (service s)) \<noteq> Returns (True, None)"
  shows "\<exists>s'. ChatCompletion env r s = Some s' \<and> calls s' = calls s \<and> service s' = service s
           \<and> (\<forall>j. ChatCompletion (env\<lparr>json_Unmarshal := j\<rparr>) r s = Some s')"
proof (cases "validPayload env (fst (Body r))
      (Header_Get (Header r) ''X-Github-Public-Key-Signature'') (pubKey (service s))")
  case Panics
  then have "\<And>j. validPayload (env\<lparr>json_Unmarshal := j\<rparr>) (fst (Body r))
      (Header_Get (Header r) ''X-Github-Public-Key-Signature'') (pubKey (service s)) = Panics"
    by simp
  from ChatCompletion_panics[OF this] ChatCompletion_panics[OF Panics]
  show ?thesis by auto
next
  case (Returns p)
  obtain valid err where p: "p = (valid, err)" by (cases p)
  with Returns have v: "validPayload env (fst (Body r))
      (Header_Get (Header r) ''X-Github-Public-Key-Signature'') (pubKey (service s)) = Returns (valid, err)"
    by simp
  with assms have n: "\<not> (valid \<and> err = None)" by auto
  have "\<And>j. validPayload (env\<lparr>json_Unmarshal := j\<rparr>) (fst (Body r))
      (Header_Get (Header r) ''X-Github-Public-Key-Signature'') (pubKey (service s)) = Returns (valid, err)"
    using v by simp
  from ChatCompletion_rejected[OF this n] ChatCompletion_rejected[OF v n]
  show ?thesis by auto
qed

theorem ChatCompletion_invalid_signature_no_calls_witness:
  "validPayload example_env ''tampered'' ''MAYCAQECAQE='' (Some 7) \<noteq> Returns (True, None) \<and>
   map_option calls
     (ChatCompletion example_env
        \<lparr>Header = example_headers ''MAYCAQECAQE='', Body = (''tampered'', None)\<rparr> (new_world 7))
   = Some []"
proof -
  have v: "validPayload example_env ''tampered'' ''MAYCAQECAQE='' (Some 7) = Returns (False, None)"
    by (simp add: validPayload_verify[of _ _ der_sig "\<lparr>R = 1, S = 1\<rparr>"])
  have "validPayload example_env
          (fst (Body \<lparr>Header = example_headers ''MAYCAQECAQE='', Body = (''tampered'', None)\<rparr>))
          (Header_Get (Header \<lparr>Header = example_headers ''MAYCAQECAQE='', Body = (''tampered'', None)\<rparr>)
             ''X-Github-Public-Key-Signature'')
          (pubKey (service (new_world 7 :: (nat, nat) world))) \<noteq> Returns (True, None)"
    using v by simp
  from ChatCompletion_invalid_signature_no_calls[OF this] v show ?thesis by auto
qed

text \<open>
  C8: when no message has role "user" and non-empty content, handling the request
  calls no collaborator but those of the ensure-step and, when the ensure-step returns
  no error, the completion service, with exactly the original messages in their order:
  no embedding is created, no dataset is looked up or loaded, no message is added.
\<close>

theorem no_user_message_forwarded_unchanged:
  assumes "\<forall>m\<in>set (Messages req). Role m \<noteq> ''user'' \<or> Content m = ''''"
  shows "calls (snd (open_stream env integrationID apiToken (Some req) s)) =
           calls (snd (datasetsInit_Do env integrationID apiToken s)) @
             (if fst (datasetsInit_Do env integrationID apiToken s) = None
              then [Call_ChatCompletions ''copilot-chat'' apiToken
                      \<lparr>cc_Messages = Messages req, cc_Model = ModelGPT4o, cc_Stream = True\<rparr>]
              else []) \<and>
         (\<forall>out s'. generateCompletion env integrationID apiToken (Some req) s = Some (out, s') \<longrightarrow>
            calls s' = calls (snd (open_stream env integrationID apiToken (Some req) s)))"
proof (intro conjI allI impI)
  show "calls (snd (open_stream env integrationID apiToken (Some req) s)) =
           calls (snd (datasetsInit_Do env integrationID apiToken s)) @
             (if fst (datasetsInit_Do env integrationID apiToken s) = None
              then [Call_ChatCompletions ''copilot-chat'' apiToken
                      \<lparr>cc_Messages = Messages req, cc_Model = ModelGPT4o, cc_Stream = True\<rparr>]
              else [])"
    by (rule open_stream_no_user_message[OF assms])
next
  fix out s'
  assume g: "generateCompletion env integrationID apiToken (Some req) s = Some (out, s')"
  from generateCompletion_calls[OF g]
  show "calls s' = calls (snd (open_stream env integrationID apiToken (Some req) s))"
    by (rule conjunct1)
qed

theorem no_user_message_forwarded_unchanged_witness:
  "calls (snd (open_stream example_env ''42'' ''token''
        (Some \<lparr>Messages = [\<lparr>Role = ''assistant'', Content = ''b''\<rparr>, \<lparr>Role = ''user'', Content = ''''\<rparr>]\<rparr>)
        (new_world 7))) =
     [Call_ReadDir ''data'', Call_GenerateDatasets ''42'' ''token'' [''data/batch.md''],
      Call_ChatCompletions ''copilot-chat'' ''token''
        \<lparr>cc_Messages = [\<lparr>Role = ''assistant'', Content = ''b''\<rparr>, \<lparr>Role = ''user'', Content = ''''\<rparr>],
         cc_Model = ModelGPT4o, cc_Stream = True\<rparr>]"
proof -
  have h: "\<forall>m\<in>set (Messages \<lparr>Messages = [\<lparr>Role = ''assistant'', Content = ''b''\<rparr>,
                 \<lparr>Role = ''user'', Content = ''''\<rparr>]\<rparr>). Role m \<noteq> ''user'' \<or> Content m = ''''"
    by simp
  have i: "fst (datasetsInit_Do example_env ''42'' ''token'' (new_world 7)) = None"
    by (simp add: example_init)
  have c: "calls (snd (datasetsInit_Do example_env ''42'' ''token'' (new_world 7))) =
     [Call_ReadDir ''data'', Call_GenerateDatasets ''42'' ''token'' [''data/batch.md'']]"
    by (simp add: example_init)
  from no_user_message_forwarded_unchanged[OF h, of example_env "''42''" "''token''" "new_world 7",
      THEN conjunct1]
  show ?thesis by (simp only: i c) simp
qed

text \<open>
  C9: the specification has all callers of the ensure-step observe the same single
  outcome of the one build. Callers one after the other do run the build once
  (\<open>ensure_callers_build_once\<close>), but when it fails only the first of them gets the
  failure: the first caller's result is the error, every other caller's is \<^verbatim>\<open>nil\<close>.
\<close>

theorem later_callers_miss_build_failure:
  assumes "datasetsInit_Do env integrationID apiToken s = (Some err, s1)"
  shows "ensure_callers ((env, integrationID, apiToken) # cs) s = (Some err # map (\<lambda>c. None) cs, s1) \<and>
         enumerations (calls s1) = Suc (enumerations (calls s)) \<and>
         generations (calls s1) \<le> Suc (generations (calls s))"
proof -
  have n: "\<not> datasetsInit (service s)" using datasetsInit_Do_error_first[OF assms] by simp
  have c: "ensure_callers ((env, integrationID, apiToken) # cs) s = (Some err # map (\<lambda>c. None) cs, s1)"
    by (simp only: ensure_callers_first assms fst_conv snd_conv)
  have k: "enumerations (calls s1) = Suc (enumerations (calls s)) \<and>
         generations (calls s1) \<le> Suc (generations (calls s))"
    using datasetsInit_Do_counts[OF n, of env integrationID apiToken] assms by simp
  from c k show ?thesis by (rule conjI)
qed

theorem later_callers_miss_build_failure_witness:
  "fst (ensure_callers
          [(example_env_no_data, ''42'', ''token''), (example_env, ''42'', ''token''),
           (example_env, ''43'', ''token'')]
          (new_world 7)) =
     [Some (Wrap (''error reading files from '' @ [CHR 0x22] @ ''data'' @ [CHR 0x22] @ '' directory'')
              (ErrorString ''open data: no such file or directory'')),
      None, None]"
  using later_callers_miss_build_failure[OF example_no_data_init,
      of "[(example_env, ''42'', ''token''), (example_env, ''43'', ''token'')]", THEN conjunct1]
  by (simp only: fst_conv list.map)




end
